theory Spec2Isabelle
  imports Main "HOL-Library.Word"
begin

section \<open>Python exceptions\<close>

text \<open>
  The notebooks are Python. A raised exception is a value: its class and the text that
  \<open>str(e)\<close> gives. Python's hierarchy has \<open>BaseException\<close> at the root and
  \<open>Exception\<close> below it; \<open>KeyboardInterrupt\<close>, \<open>SystemExit\<close> and
  \<open>GeneratorExit\<close> derive from \<open>BaseException\<close> only, so a clause
  \<open>except Exception\<close> does not catch them. The classes listed are the ones the
  notebooks name in an \<open>except\<close> clause, the two that the MNIST loader can raise
  (\<open>struct.error\<close>, \<open>ValueError\<close>), one class standing for every other subclass
  of \<open>Exception\<close>, and the three that are outside \<open>Exception\<close>.
\<close>

datatype exc_class =
    ComputeTargetException
  | KeyError
  | ImportError
  | StructError
  | ValueError
  | OtherException
  | KeyboardInterrupt
  | SystemExit
  | GeneratorExit

datatype py_exc = Exc (exc_class: exc_class) (str: string)

fun is_Exception :: "exc_class \<Rightarrow> bool" where
  "is_Exception KeyboardInterrupt = False"
| "is_Exception SystemExit = False"
| "is_Exception GeneratorExit = False"
| "is_Exception _ = True"

section \<open>The entry script written by the local-deployment notebook\<close>

text \<open>
  The notebook \<open>register-model-deploy-local\<close> writes \<open>score.py\<close> with
  \<open>%%writefile\<close>:
  \<^verbatim>\<open>
  def run(data):
      try:
          result = model.predict(data)
          # you can return any datatype as long as it is JSON-serializable
          return 'hello from updated score.py'
      except Exception as e:
          error = str(e)
          return error
  \<close>
  \<open>model\<close> is the global that \<open>init()\<close> loads from the pickled file; its
  \<open>predict\<close> is the parameter \<open>predict\<close>, which returns a prediction or raises
  (a \<open>NameError\<close> when \<open>init()\<close> never ran is one of the raised cases). The
  function returns a string on both paths; \<open>Inl\<close> is an exception that leaves
  \<open>run\<close>. The decorators \<open>@input_schema\<close> and \<open>@output_schema\<close> on \<open>run\<close> belong
  to the inference-schema package; what they do before and after the body is not part
  of the source, and the model is the function as written.
\<close>

definition run :: "('d \<Rightarrow> py_exc + 'r) \<Rightarrow> 'd \<Rightarrow> py_exc + string" where
  "run predict data =
     (case predict data of
        Inr result \<Rightarrow> Inr ''hello from updated score.py''
      | Inl e \<Rightarrow>
          if is_Exception (exc_class e) then (let error = str e in Inr error)
          else Inl e)"

section \<open>The MNIST loader of the chainer notebook\<close>

text \<open>
  train-hyperparameter-tune-deploy-with-chainer defines, in the cell that tests the
  deployed service:
  \<^verbatim>\<open>
  # load compressed MNIST gz files and return numpy arrays
  def load_data(filename, label=False):
      with gzip.open(filename) as gz:
          struct.unpack('I', gz.read(4))
          n_items = struct.unpack('>I', gz.read(4))
          if not label:
              n_rows = struct.unpack('>I', gz.read(4))[0]
              n_cols = struct.unpack('>I', gz.read(4))[0]
              res = np.frombuffer(gz.read(n_items[0] * n_rows * n_cols), dtype=np.uint8)
              res = res.reshape(n_items[0], n_rows * n_cols)
          else:
              res = np.frombuffer(gz.read(n_items[0]), dtype=np.uint8)
              res = res.reshape(n_items[0], 1)
      return res
  \<close>
  The model starts from the decompressed content of the file, a list of bytes.
  \<open>gz.read(n)\<close> returns the next \<open>n\<close> bytes, fewer at the end of the stream, and
  moves on. \<open>struct.unpack\<close> of one 32-bit unsigned integer raises \<open>struct.error\<close>
  unless it is given exactly four bytes; the format \<open>'>I'\<close> reads them big-endian. The
  value of the first field (format \<open>'I'\<close>, the magic number) is thrown away. Python's
  integers are unbounded, so the sizes are natural numbers. \<open>reshape(n, m)\<close> raises
  \<open>ValueError\<close> unless the array has \<open>n * m\<close> elements; its result, a two-dimensional
  array, is the list of its rows.
\<close>

definition read :: "nat \<Rightarrow> 8 word list \<Rightarrow> 8 word list \<times> 8 word list" where
  "read n gz = (take n gz, drop n gz)"

definition unpack_I :: "8 word list \<Rightarrow> py_exc + nat" where
  "unpack_I buf =
     (case buf of
        [b3, b2, b1, b0] \<Rightarrow>
          Inr (unat b3 * 2 ^ 24 + unat b2 * 2 ^ 16 + unat b1 * 2 ^ 8 + unat b0)
      | _ \<Rightarrow> Inl (Exc StructError ''unpack requires a buffer of 4 bytes''))"

definition reshape :: "nat \<Rightarrow> nat \<Rightarrow> 8 word list \<Rightarrow> py_exc + 8 word list list" where
  "reshape n m arr =
     (if length arr = n * m then Inr (map (\<lambda>i. take m (drop (i * m) arr)) [0..<n])
      else Inl (Exc ValueError ''cannot reshape array''))"

definition load_data :: "8 word list \<Rightarrow> bool \<Rightarrow> py_exc + 8 word list list" where
  "load_data gz0 label =
     (let (magic, gz1) = read 4 gz0 in
      case unpack_I magic of
        Inl e \<Rightarrow> Inl e
      | Inr _ \<Rightarrow>
          let (buf, gz2) = read 4 gz1 in
          case unpack_I buf of
            Inl e \<Rightarrow> Inl e
          | Inr n_items \<Rightarrow>
              if \<not> label then
                (let (buf, gz3) = read 4 gz2 in
                 case unpack_I buf of
                   Inl e \<Rightarrow> Inl e
                 | Inr n_rows \<Rightarrow>
                     let (buf, gz4) = read 4 gz3 in
                     case unpack_I buf of
                       Inl e \<Rightarrow> Inl e
                     | Inr n_cols \<Rightarrow>
                         let (res, gz5) = read (n_items * n_rows * n_cols) gz4
                         in reshape n_items (n_rows * n_cols) res)
              else
                (let (res, gz3) = read n_items gz2
                 in reshape n_items 1 res))"

section \<open>Compute targets and the calls a cell issues\<close>

text \<open>
  A compute target is an object of the SDK with a Python class (\<open>type(compute_target)\<close>,
  also read as the string \<open>.type\<close>) and the name it is registered under. The
  notebooks only compare the class with \<open>AmlCompute\<close>.
\<close>

datatype compute_type = AmlCompute | AksCompute | OtherCompute

datatype py_val = IntV int | StrV string

text \<open>
  \<open>AmlCompute.provisioning_configuration(vm_size=..., min_nodes=..., max_nodes=...)\<close> and
  \<open>AksCompute.provisioning_configuration()\<close>: the class that builds the configuration
  and the keyword arguments given (\<open>None\<close> for one left out).
\<close>

record provisioning_config =
  config_type :: compute_type
  vm_size :: "string option"
  min_nodes :: "py_val option"
  max_nodes :: "py_val option"

record compute =
  target_type :: compute_type
  target_name :: string

text \<open>
  What a cell does that is visible outside it: the SDK calls it issues and the lines it
  prints, in order. \<open>Lookup\<close> is the constructor call
  \<open>ComputeTarget(workspace=ws, name=...)\<close>, \<open>ListTargets\<close> a read of the property
  \<open>ws.compute_targets\<close>. \<open>Wait\<close> carries the \<open>timeout_in_minutes\<close> argument of
  \<open>wait_for_completion\<close>, \<open>None\<close> when the call passes none.
\<close>

datatype effect =
    Lookup string
  | ListTargets
  | Create string provisioning_config
  | Wait string "nat option"
  | GetStatus string
  | Print string

fun is_Create :: "effect \<Rightarrow> bool" where
  "is_Create (Create _ _) = True"
| "is_Create _ = False"

fun is_Wait :: "effect \<Rightarrow> bool" where
  "is_Wait (Wait _ _) = True"
| "is_Wait _ = False"

fun is_Print :: "effect \<Rightarrow> bool" where
  "is_Print (Print _) = True"
| "is_Print _ = False"

text \<open>
  The state a cell runs in: \<open>compute_targets\<close> is the dictionary
  \<open>ws.compute_targets\<close> (the targets registered in the workspace, by name),
  \<open>vars\<close> holds the notebook's variables that are bound to a compute target
  (\<open>compute_target\<close>, \<open>aks_target\<close>), and \<open>effects\<close> is the log of what
  the cells did so far, latest last.
\<close>

record notebook =
  compute_targets :: "string \<rightharpoonup> compute"
  vars :: "string \<rightharpoonup> compute"
  effects :: "effect list"

definition did :: "effect \<Rightarrow> notebook \<Rightarrow> notebook" where
  "did e nb = nb\<lparr>effects := effects nb @ [e]\<rparr>"

definition assign :: "string \<Rightarrow> compute \<Rightarrow> notebook \<Rightarrow> notebook" where
  "assign v c nb = nb\<lparr>vars := (vars nb)(v \<mapsto> c)\<rparr>"

definition creates :: "notebook \<Rightarrow> nat" where
  "creates nb = length (filter is_Create (effects nb))"

text \<open>
  The platform behind the SDK is a parameter. \<open>create\<close> is
  \<open>ComputeTarget.create(ws, name, config)\<close>: given the registered targets it raises, or
  returns the targets registered afterwards and the new target object. \<open>ready\<close> is what
  a poll of the target's provisioning state finds: \<open>ready sdk c n\<close> holds when the
  cluster is ready \<open>n\<close> minutes after the wait began.
\<close>

record sdk =
  create :: "(string \<rightharpoonup> compute) \<Rightarrow> string \<Rightarrow> provisioning_config
               \<Rightarrow> py_exc + (string \<rightharpoonup> compute) \<times> compute"
  ready :: "compute \<Rightarrow> nat \<Rightarrow> bool"

text \<open>
  \<open>ComputeTarget(workspace=ws, name=...)\<close> returns the registered target of that name and
  raises \<open>ComputeTargetException\<close> when there is none; \<open>ws.compute_targets[name]\<close>
  is a dictionary read and raises \<open>KeyError\<close> on a missing key. The message texts are
  the SDK's and are not modelled.
\<close>

definition ComputeTarget :: "notebook \<Rightarrow> string \<Rightarrow> py_exc + compute" where
  "ComputeTarget nb name =
     (case compute_targets nb name of
        None \<Rightarrow> Inl (Exc ComputeTargetException [])
      | Some c \<Rightarrow> Inr c)"

definition getitem :: "notebook \<Rightarrow> string \<Rightarrow> py_exc + compute" where
  "getitem nb name =
     (case compute_targets nb name of
        None \<Rightarrow> Inl (Exc KeyError name)
      | Some c \<Rightarrow> Inr c)"

section \<open>Waiting for a cluster\<close>

datatype wait_result = Completed | TimedOut

text \<open>
  Modelled from the spec: \<open>wait_for_completion\<close> is a method of the SDK, whose code is
  not in the repository. The spec describes it as "polling until ready or timeout", and
  the notebooks' comment on the call reads "can poll for a minimum number of nodes and
  for a specific timeout". The loop polls the cluster once a minute, returns when the
  cluster is ready, returns when a timeout was given and has elapsed, and polls again
  otherwise. Without a timeout and with a cluster that never becomes ready it does not
  return: the value is \<open>None\<close>.
\<close>

partial_function (option) poll :: "(nat \<Rightarrow> bool) \<Rightarrow> nat option \<Rightarrow> nat \<Rightarrow> wait_result option" where
  "poll is_ready timeout_in_minutes n =
     (if is_ready n then Some Completed
      else if (case timeout_in_minutes of Some t \<Rightarrow> t \<le> n | None \<Rightarrow> False) then Some TimedOut
      else poll is_ready timeout_in_minutes (Suc n))"

definition wait_for_completion :: "sdk \<Rightarrow> compute \<Rightarrow> nat option \<Rightarrow> wait_result option" where
  "wait_for_completion s target timeout_in_minutes = poll (ready s target) timeout_in_minutes 0"

section \<open>The cells that get or create a compute target\<close>

text \<open>
  Each cell is a function of the platform and the notebook state. It returns the state
  after the cell and the exception that ended it, if one did; the outer \<open>None\<close> is a
  cell that does not return, because a wait in it polls forever.
\<close>

type_synonym cell = "sdk \<Rightarrow> notebook \<Rightarrow> (notebook \<times> py_exc option) option"

text \<open>
  train-hyperparameter-tune-deploy-with-chainer:
  \<^verbatim>\<open>
  cluster_name = "gpu-cluster"
  try:
      compute_target = ComputeTarget(workspace=ws, name=cluster_name)
      print('Found existing compute target.')
  except ComputeTargetException:
      print('Creating a new compute target...')
      compute_config = AmlCompute.provisioning_configuration(vm_size='STANDARD_NC6',
                                                             min_nodes=2,
                                                             max_nodes=4)
      compute_target = ComputeTarget.create(ws, cluster_name, compute_config)
      compute_target.wait_for_completion(show_output=True)
  print(compute_target.get_status().serialize())
  \<close>
\<close>

definition chainer_compute_cell :: cell where
  "chainer_compute_cell s nb0 =
     (let cluster_name = ''gpu-cluster'';
          nb1 = did (Lookup cluster_name) nb0
      in case ComputeTarget nb1 cluster_name of
           Inr found \<Rightarrow>
             (let nb2 = did (Print ''Found existing compute target.'')
                          (assign ''compute_target'' found nb1)
              in Some (did (GetStatus cluster_name) nb2, None))
         | Inl e \<Rightarrow>
             if exc_class e \<noteq> ComputeTargetException then Some (nb1, Some e)
             else
               (let nb2 = did (Print ''Creating a new compute target...'') nb1;
                    compute_config = \<lparr>config_type = AmlCompute, vm_size = Some ''STANDARD_NC6'',
                                       min_nodes = Some (IntV 2), max_nodes = Some (IntV 4)\<rparr>;
                    nb3 = did (Create cluster_name compute_config) nb2
                in case create s (compute_targets nb3) cluster_name compute_config of
                     Inl e' \<Rightarrow> Some (nb3, Some e')
                   | Inr (registered, made) \<Rightarrow>
                       (let nb4 = assign ''compute_target'' made
                                    (nb3\<lparr>compute_targets := registered\<rparr>);
                            nb5 = did (Wait cluster_name None) nb4
                        in case wait_for_completion s made None of
                             None \<Rightarrow> None
                           | Some _ \<Rightarrow> Some (did (GetStatus cluster_name) nb5, None))))"

text \<open>
  auto-ml-forecasting-beer-remote:
  \<^verbatim>\<open>
  cpu_cluster_name = "cpu-cluster"
  try:
      compute_target = ComputeTarget(workspace=ws, name=cpu_cluster_name)
      print('Found existing cluster, use it.')
  except ComputeTargetException:
      compute_config = AmlCompute.provisioning_configuration(vm_size='STANDARD_D2_V2',
                                                             max_nodes=4)
      compute_target = ComputeTarget.create(ws, cpu_cluster_name, compute_config)

  compute_target.wait_for_completion(show_output=True)
  \<close>
  The wait is after the \<open>try\<close>: it runs on a found cluster as well as on a new one.
\<close>

definition beer_wait :: "string \<Rightarrow> compute \<Rightarrow> cell" where
  "beer_wait cpu_cluster_name target s nb =
     (case wait_for_completion s target None of
        None \<Rightarrow> None
      | Some _ \<Rightarrow> Some (did (Wait cpu_cluster_name None) nb, None))"

definition beer_compute_cell :: cell where
  "beer_compute_cell s nb0 =
     (let cpu_cluster_name = ''cpu-cluster'';
          nb1 = did (Lookup cpu_cluster_name) nb0
      in case ComputeTarget nb1 cpu_cluster_name of
           Inr found \<Rightarrow>
             beer_wait cpu_cluster_name found s
               (did (Print ''Found existing cluster, use it.'')
                  (assign ''compute_target'' found nb1))
         | Inl e \<Rightarrow>
             if exc_class e \<noteq> ComputeTargetException then Some (nb1, Some e)
             else
               (let compute_config = \<lparr>config_type = AmlCompute, vm_size = Some ''STANDARD_D2_V2'',
                                       min_nodes = None, max_nodes = Some (IntV 4)\<rparr>;
                    nb2 = did (Create cpu_cluster_name compute_config) nb1
                in case create s (compute_targets nb2) cpu_cluster_name compute_config of
                     Inl e' \<Rightarrow> Some (nb2, Some e')
                   | Inr (registered, made) \<Rightarrow>
                       beer_wait cpu_cluster_name made s
                         (assign ''compute_target'' made (nb2\<lparr>compute_targets := registered\<rparr>))))"

text \<open>
  drift-on-aks, the inference cluster:
  \<^verbatim>\<open>
  prov_config = AksCompute.provisioning_configuration()
  aks_name = 'drift-aks'
  try:
      aks_target = ws.compute_targets[aks_name]
  except KeyError:
      aks_target = ComputeTarget.create(workspace = ws,
                                        name = aks_name,
                                        provisioning_configuration = prov_config)
      aks_target.wait_for_completion(show_output = True)
  \<close>
\<close>

definition aks_compute_cell :: cell where
  "aks_compute_cell s nb0 =
     (let prov_config = \<lparr>config_type = AksCompute, vm_size = None,
                          min_nodes = None, max_nodes = None\<rparr>;
          aks_name = ''drift-aks'';
          nb1 = did ListTargets nb0
      in case getitem nb1 aks_name of
           Inr found \<Rightarrow> Some (assign ''aks_target'' found nb1, None)
         | Inl e \<Rightarrow>
             if exc_class e \<noteq> KeyError then Some (nb1, Some e)
             else
               (let nb2 = did (Create aks_name prov_config) nb1
                in case create s (compute_targets nb2) aks_name prov_config of
                     Inl e' \<Rightarrow> Some (nb2, Some e')
                   | Inr (registered, made) \<Rightarrow>
                       (let nb3 = assign ''aks_target'' made (nb2\<lparr>compute_targets := registered\<rparr>);
                            nb4 = did (Wait aks_name None) nb3
                        in case wait_for_completion s made None of
                             None \<Rightarrow> None
                           | Some _ \<Rightarrow> Some (nb4, None))))"

text \<open>
  tabular-dataset-inference-iris and, with constants in place of the environment
  variables, the monitoring cluster of drift-on-aks:
  \<^verbatim>\<open>
  if compute_name in ws.compute_targets:
      compute_target = ws.compute_targets[compute_name]
      if compute_target and type(compute_target) is AmlCompute:
          print('found compute target. just use it. ' + compute_name)
  else:
      print('creating a new compute target...')
      provisioning_config = AmlCompute.provisioning_configuration(vm_size = vm_size,
                                                                  min_nodes = compute_min_nodes,
                                                                  max_nodes = compute_max_nodes)
      compute_target = ComputeTarget.create(ws, compute_name, provisioning_config)
      compute_target.wait_for_completion(show_output=True, min_node_count=None, timeout_in_minutes=20)
      print(compute_target.get_status().serialize())
  \<close>
  An SDK object is true in a condition, so \<open>compute_target and ...\<close> is the type test
  alone. The inner \<open>if\<close> has no \<open>else\<close>.
\<close>

definition membership_compute_cell :: "string \<Rightarrow> string \<Rightarrow> py_val \<Rightarrow> py_val \<Rightarrow> cell" where
  "membership_compute_cell compute_name vm_sz compute_min_nodes compute_max_nodes s nb0 =
     (let nb1 = did ListTargets nb0
      in if compute_name \<in> dom (compute_targets nb1) then
           (let nb2 = did ListTargets nb1
            in case getitem nb2 compute_name of
                 Inl e \<Rightarrow> Some (nb2, Some e)
               | Inr found \<Rightarrow>
                   (let nb3 = assign ''compute_target'' found nb2
                    in if target_type found = AmlCompute
                       then Some (did (Print (''found compute target. just use it. '' @ compute_name)) nb3,
                                  None)
                       else Some (nb3, None)))
         else
           (let nb2 = did (Print ''creating a new compute target...'') nb1;
                provisioning_config = \<lparr>config_type = AmlCompute, vm_size = Some vm_sz,
                                         min_nodes = Some compute_min_nodes,
                                         max_nodes = Some compute_max_nodes\<rparr>;
                nb3 = did (Create compute_name provisioning_config) nb2
            in case create s (compute_targets nb3) compute_name provisioning_config of
                 Inl e \<Rightarrow> Some (nb3, Some e)
               | Inr (registered, made) \<Rightarrow>
                   (let nb4 = assign ''compute_target'' made (nb3\<lparr>compute_targets := registered\<rparr>);
                        nb5 = did (Wait compute_name (Some 20)) nb4
                    in case wait_for_completion s made (Some 20) of
                         None \<Rightarrow> None
                       | Some _ \<Rightarrow> Some (did (GetStatus compute_name) nb5, None))))"




definition drift_compute_cell :: cell where
  "drift_compute_cell = membership_compute_cell ''cpu-cluster'' ''STANDARD_D3_V2'' (IntV 0) (IntV 2)"

text \<open>
  auto-ml-classification-bank-marketing-all-features and, with the name
  \<open>"cpu-dnntext"\<close>, auto-ml-classification-text-dnn:
  \<^verbatim>\<open>
  found = False
  cts = ws.compute_targets
  if amlcompute_cluster_name in cts and cts[amlcompute_cluster_name].type == 'AmlCompute':
      found = True
      print('Found existing compute target.')
      compute_target = cts[amlcompute_cluster_name]

  if not found:
      print('Creating a new compute target...')
      provisioning_config = AmlCompute.provisioning_configuration(vm_size = "STANDARD_D2_V2",
                                                                  max_nodes = 6)
      compute_target = ComputeTarget.create(ws, amlcompute_cluster_name, provisioning_config)

  print('Checking cluster status...')
  compute_target.wait_for_completion(show_output = True, min_node_count = None, timeout_in_minutes = 20)
  \<close>
\<close>

definition found_flag_wait :: "string \<Rightarrow> compute \<Rightarrow> cell" where
  "found_flag_wait amlcompute_cluster_name target s nb =
     (let nb1 = did (Print ''Checking cluster status...'') nb;
          nb2 = did (Wait amlcompute_cluster_name (Some 20)) nb1
      in case wait_for_completion s target (Some 20) of
           None \<Rightarrow> None
         | Some _ \<Rightarrow> Some (nb2, None))"

definition found_flag_compute_cell :: "string \<Rightarrow> cell" where
  "found_flag_compute_cell amlcompute_cluster_name s nb0 =
     (let nb1 = did ListTargets nb0;
          cts = compute_targets nb1;
          found = (case cts amlcompute_cluster_name of
                     None \<Rightarrow> False
                   | Some c \<Rightarrow> target_type c = AmlCompute)
      in if found then
           (case cts amlcompute_cluster_name of
              None \<Rightarrow> Some (nb1, Some (Exc KeyError amlcompute_cluster_name))
            | Some c \<Rightarrow>
                found_flag_wait amlcompute_cluster_name c s
                  (assign ''compute_target'' c (did (Print ''Found existing compute target.'') nb1)))
         else
           (let nb2 = did (Print ''Creating a new compute target...'') nb1;
                provisioning_config = \<lparr>config_type = AmlCompute, vm_size = Some ''STANDARD_D2_V2'',
                                         min_nodes = None, max_nodes = Some (IntV 6)\<rparr>;
                nb3 = did (Create amlcompute_cluster_name provisioning_config) nb2
            in case create s (compute_targets nb3) amlcompute_cluster_name provisioning_config of
                 Inl e \<Rightarrow> Some (nb3, Some e)
               | Inr (registered, made) \<Rightarrow>
                   found_flag_wait amlcompute_cluster_name made s
                     (assign ''compute_target'' made (nb3\<lparr>compute_targets := registered\<rparr>))))"



section \<open>The acquisition cells of the notebooks, and platforms to run them on\<close>



text \<open>
  Two platforms to run the cells on. \<open>accepting_sdk\<close> creates every cluster asked for
  and reports it ready from the third minute on; \<open>stalled_sdk\<close> creates it and never
  reports it ready.
\<close>

definition accepting_sdk :: sdk where
  "accepting_sdk =
     \<lparr>create = (\<lambda>cts n cfg. let t = \<lparr>target_type = config_type cfg, target_name = n\<rparr>
                               in Inr (cts(n \<mapsto> t), t)),
      ready = (\<lambda>c n. 3 \<le> n)\<rparr>"

definition stalled_sdk :: sdk where
  "stalled_sdk = accepting_sdk\<lparr>ready := (\<lambda>c n. False)\<rparr>"

definition fresh_notebook :: notebook where
  "fresh_notebook = \<lparr>compute_targets = Map.empty, vars = Map.empty, effects = []\<rparr>"

definition aks_named :: "string \<Rightarrow> notebook" where
  "aks_named n =
     \<lparr>compute_targets = [n \<mapsto> \<lparr>target_type = AksCompute, target_name = n\<rparr>],
      vars = Map.empty, effects = []\<rparr>"

section \<open>The code cells of the notebooks\<close>

text \<open>
  The claims about what the notebooks never do are claims about their code, so the code
  cells are part of the model: every statement of every code cell, as Python parses it.
  A notebook is the list of its code cells in order, a cell the list of its statements.
  Comments and markdown cells are not code and are left out, so a cell of comments only
  is the empty list.

  Expressions: a name, a string, an integer, any other literal by its text
  (\<open>True\<close>, \<open>None\<close>, \<open>0.75\<close>), an attribute \<open>e.a\<close>, a call \<open>f(args)\<close> whose keyword
  arguments are \<open>Kw\<close> entries of the argument list (\<open>**d\<close> is the keyword \<open>**\<close>), an
  item \<open>e[i]\<close>, an operator or display applied to its operands (\<open>+\<close>, \<open>==\<close>, \<open>in\<close>,
  \<open>and\<close>, \<open>not\<close>, \<open>list\<close>, \<open>tuple\<close>, \<open>dict\<close> with its \<open>item\<close>s, \<open>slice\<close>,
  the star of \<open>*args\<close>), a lambda, and a list comprehension with its element, target
  and iterable.

  Statements: \<open>Import m n\<close> binds \<open>n\<close> to the module or module member \<open>m\<close> (one per
  imported name); \<open>Assign\<close> has its targets and its value; \<open>Try\<close> has its body and its
  handlers, each an \<open>Except\<close> with the exception class, the name after \<open>as\<close> if any,
  and its body; \<open>Def\<close> has the name, the decorators, the parameters and the body;
  \<open>With\<close> has the context expression, the target after \<open>as\<close> if any, and the body;
  \<open>Docstring\<close> is a string that stands alone as a statement.
  \<open>Shell\<close> is IPython's \<open>!command\<close>, which runs the command in a child process and
  waits for it; \<open>Magic\<close> is a line magic (\<open>%matplotlib inline\<close>); \<open>WriteFile\<close> is a
  cell that starts with \<open>%%writefile\<close>, with the file's name and its Python code. No
  notebook has a \<open>while\<close> loop, a class, a \<open>raise\<close>, an \<open>else\<close> or \<open>finally\<close> on a
  \<open>try\<close>, or a comprehension with a condition, so the datatypes have none.
\<close>

datatype expr =
    Name string
  | Str string
  | Num int
  | Lit string
  | Attr expr string
  | Call expr "expr list"
  | Kw string expr
  | Index expr expr
  | Op string "expr list"
  | Lambda "expr list" expr
  | ListComp expr expr expr

datatype stmt =
    Import string string
  | Assign "expr list" expr
  | Expr expr
  | If expr "stmt list" "stmt list"
  | For expr expr "stmt list"
  | With expr "expr list" "stmt list"
  | Try "stmt list" "stmt list"
  | Except expr "string list" "stmt list"
  | Def string "expr list" "expr list" "stmt list"
  | Return expr
  | Global "string list"
  | Docstring string
  | Shell string
  | Magic string
  | WriteFile string "stmt list"

text \<open>
  register-model-deploy-local (how-to-use-azureml/deployment/deploy-to-local),
  the file src/unnamed/part_000: 12 code cells.
\<close>

definition deploy_local_nb :: "stmt list list" where
  "deploy_local_nb =
     [[Import ''azureml.core'' ''azureml'',
       Expr
         (Call (Name ''print'')
            [Str ''SDK version:'', Attr (Attr (Name ''azureml'') ''core'') ''VERSION''])],
      [Import ''azureml.core.Workspace'' ''Workspace'',
       Assign [Name ''ws''] (Call (Attr (Name ''Workspace'') ''from_config'') []),
       Expr
         (Call (Name ''print'')
            [Attr (Name ''ws'') ''name'', Attr (Name ''ws'') ''resource_group'',
             Attr (Name ''ws'') ''location'', Attr (Name ''ws'') ''subscription_id'',
             Kw ''sep'' (Str [CHR 0x0A])])],
      [Import ''azureml.core.model.Model'' ''Model'',
       Assign [Name ''model'']
         (Call (Attr (Name ''Model'') ''register'')
            [Kw ''model_path'' (Str ''sklearn_regression_model.pkl''),
             Kw ''model_name'' (Str ''sklearn_regression_model_local''),
             Kw ''tags''
               (Op ''dict''
                  [Op ''item'' [Str ''area'', Str ''diabetes''],
                   Op ''item'' [Str ''type'', Str ''regression'']]),
             Kw ''description'' (Str ''Ridge regression model to predict diabetes''),
             Kw ''workspace'' (Name ''ws'')])],
      [Import ''azureml.core.conda_dependencies.CondaDependencies'' ''CondaDependencies'',
       Import ''azureml.core.environment.Environment'' ''Environment'',
       Assign [Name ''environment''] (Call (Name ''Environment'') [Str ''LocalDeploy'']),
       Assign [Attr (Attr (Name ''environment'') ''python'') ''conda_dependencies'']
         (Call (Name ''CondaDependencies'') [Str ''myenv.yml''])],
      [Import ''azureml.core.model.InferenceConfig'' ''InferenceConfig'',
       Assign [Name ''inference_config'']
         (Call (Name ''InferenceConfig'')
            [Kw ''entry_script'' (Str ''score.py''), Kw ''environment'' (Name ''environment'')])],
      [Import ''azureml.core.webservice.LocalWebservice'' ''LocalWebservice'',
       Assign [Name ''deployment_config'']
         (Call (Attr (Name ''LocalWebservice'') ''deploy_configuration'')
            [Kw ''port'' (Num 6789)]),
       Assign [Name ''local_service'']
         (Call (Attr (Name ''Model'') ''deploy'')
            [Name ''ws'', Str ''test'', Op ''list'' [Name ''model''],
             Name ''inference_config'', Name ''deployment_config'']),
       Expr (Call (Attr (Name ''local_service'') ''wait_for_deployment'') [])],
      [Expr
         (Call (Name ''print'')
            [Call (Attr (Str ''Local service port: {}'') ''format'')
               [Attr (Name ''local_service'') ''port'']])],
      [Expr (Call (Name ''print'') [Call (Attr (Name ''local_service'') ''get_logs'') []])],
      [Import ''json'' ''json'',
       Assign [Name ''sample_input'']
         (Call (Attr (Name ''json'') ''dumps'')
            [Op ''dict''
               [Op ''item''
                  [Str ''data'',
                   Op ''list''
                     [Op ''list''
                        [Num 1, Num 2, Num 3, Num 4, Num 5, Num 6, Num 7, Num 8, Num 9,
                         Num 10],
                      Op ''list''
                        [Num 10, Num 9, Num 8, Num 7, Num 6, Num 5, Num 4, Num 3, Num 2,
                         Num 1]]]]]),
       Assign [Name ''sample_input'']
         (Call (Name ''bytes'') [Name ''sample_input'', Kw ''encoding'' (Str ''utf-8'')]),
       Expr
         (Call (Attr (Name ''local_service'') ''run'')
            [Kw ''input_data'' (Name ''sample_input'')])],
      [WriteFile ''score.py''
         [Import ''os'' ''os'', Import ''pickle'' ''pickle'', Import ''json'' ''json'',
          Import ''numpy'' ''np'', Import ''sklearn.externals.joblib'' ''joblib'',
          Import ''sklearn.linear_model.Ridge'' ''Ridge'',
          Import ''inference_schema.schema_decorators.input_schema'' ''input_schema'',
          Import ''inference_schema.schema_decorators.output_schema'' ''output_schema'',
          Import ''inference_schema.parameter_types.numpy_parameter_type.NumpyParameterType''
            ''NumpyParameterType'',
          Def ''init'' [] []
            [Global [''model''],
             Assign [Name ''model_path'']
               (Call (Attr (Attr (Name ''os'') ''path'') ''join'')
                  [Call (Attr (Name ''os'') ''getenv'') [Str ''AZUREML_MODEL_DIR''],
                   Str ''sklearn_regression_model.pkl'']),
             Assign [Name ''model'']
               (Call (Attr (Name ''joblib'') ''load'') [Name ''model_path''])],
          Assign [Name ''input_sample'']
            (Call (Attr (Name ''np'') ''array'')
               [Op ''list''
                  [Op ''list''
                     [Num 10, Num 9, Num 8, Num 7, Num 6, Num 5, Num 4, Num 3, Num 2, Num 1]]]),
          Assign [Name ''output_sample'']
            (Call (Attr (Name ''np'') ''array'') [Op ''list'' [Lit ''3726.995'']]),
          Def ''run''
            [Call (Name ''input_schema'')
               [Str ''data'', Call (Name ''NumpyParameterType'') [Name ''input_sample'']],
             Call (Name ''output_schema'')
               [Call (Name ''NumpyParameterType'') [Name ''output_sample'']]]
            [Name ''data'']
            [Try
               [Assign [Name ''result'']
                  (Call (Attr (Name ''model'') ''predict'') [Name ''data'']),
                Return (Str ''hello from updated score.py'')]
               [Except (Name ''Exception'') [''e'']
                  [Assign [Name ''error''] (Call (Name ''str'') [Name ''e'']),
                   Return (Name ''error'')]]]]],
      [Expr (Call (Attr (Name ''local_service'') ''reload'') []),
       Expr
         (Call (Name ''print'')
            [Str ''--------------------------------------------------------------'']),
       Expr
         (Call (Attr (Name ''local_service'') ''run'')
            [Kw ''input_data'' (Name ''sample_input'')])],
      [Expr (Call (Attr (Name ''local_service'') ''delete'') [])]]"

text \<open>
  train-hyperparameter-tune-deploy-with-chainer (how-to-use-azureml/ml-frameworks/chainer/deployment),
  the file src/unnamed/part_001: 26 code cells.
\<close>

definition chainer_nb :: "stmt list list" where
  "chainer_nb =
     [[Import ''azureml.core'' ''azureml'',
       Expr
         (Call (Name ''print'')
            [Str ''SDK version:'', Attr (Attr (Name ''azureml'') ''core'') ''VERSION''])],
      [Shell ''jupyter nbextension install --py --user azureml.widgets'',
       Shell ''jupyter nbextension enable --py --user azureml.widgets''],
      [Import ''azureml.telemetry.set_diagnostics_collection'' ''set_diagnostics_collection'',
       Expr
         (Call (Name ''set_diagnostics_collection'') [Kw ''send_diagnostics'' (Lit ''True'')])],
      [Import ''azureml.core.workspace.Workspace'' ''Workspace'',
       Assign [Name ''ws''] (Call (Attr (Name ''Workspace'') ''from_config'') []),
       Expr
         (Call (Name ''print'')
            [Op ''+'' [Str ''Workspace name: '', Attr (Name ''ws'') ''name''],
             Op ''+'' [Str ''Azure region: '', Attr (Name ''ws'') ''location''],
             Op ''+'' [Str ''Subscription id: '', Attr (Name ''ws'') ''subscription_id''],
             Op ''+'' [Str ''Resource group: '', Attr (Name ''ws'') ''resource_group''],
             Kw ''sep'' (Str [CHR 0x0A])])],
      [Import ''azureml.core.compute.ComputeTarget'' ''ComputeTarget'',
       Import ''azureml.core.compute.AmlCompute'' ''AmlCompute'',
       Import ''azureml.core.compute_target.ComputeTargetException'' ''ComputeTargetException'',
       Assign [Name ''cluster_name''] (Str ''gpu-cluster''),
       Try
         [Assign [Name ''compute_target'']
            (Call (Name ''ComputeTarget'')
               [Kw ''workspace'' (Name ''ws''), Kw ''name'' (Name ''cluster_name'')]),
          Expr (Call (Name ''print'') [Str ''Found existing compute target.''])]
         [Except (Name ''ComputeTargetException'') []
            [Expr (Call (Name ''print'') [Str ''Creating a new compute target...'']),
             Assign [Name ''compute_config'']
               (Call (Attr (Name ''AmlCompute'') ''provisioning_configuration'')
                  [Kw ''vm_size'' (Str ''STANDARD_NC6''), Kw ''min_nodes'' (Num 2),
                   Kw ''max_nodes'' (Num 4)]),
             Assign [Name ''compute_target'']
               (Call (Attr (Name ''ComputeTarget'') ''create'')
                  [Name ''ws'', Name ''cluster_name'', Name ''compute_config'']),
             Expr
               (Call (Attr (Name ''compute_target'') ''wait_for_completion'')
                  [Kw ''show_output'' (Lit ''True'')])]],
       Expr
         (Call (Name ''print'')
            [Call
               (Attr (Call (Attr (Name ''compute_target'') ''get_status'') []) ''serialize'')
               []])],
      [Import ''os'' ''os'', Assign [Name ''project_folder''] (Str ''./chainer-mnist''),
       Expr
         (Call (Attr (Name ''os'') ''makedirs'')
            [Name ''project_folder'', Kw ''exist_ok'' (Lit ''True'')])],
      [Import ''shutil'' ''shutil'',
       Expr
         (Call (Attr (Name ''shutil'') ''copy'')
            [Str ''chainer_mnist.py'', Name ''project_folder'']),
       Expr
         (Call (Attr (Name ''shutil'') ''copy'')
            [Str ''chainer_score.py'', Name ''project_folder''])],
      [Import ''azureml.core.Experiment'' ''Experiment'',
       Assign [Name ''experiment_name''] (Str ''chainer-mnist''),
       Assign [Name ''experiment'']
         (Call (Name ''Experiment'') [Name ''ws'', Kw ''name'' (Name ''experiment_name'')])],
      [Import ''azureml.train.dnn.Chainer'' ''Chainer'',
       Assign [Name ''script_params'']
         (Op ''dict''
            [Op ''item'' [Str ''--epochs'', Num 10],
             Op ''item'' [Str ''--batchsize'', Num 128],
             Op ''item'' [Str ''--output_dir'', Str ''./outputs'']]),
       Assign [Name ''estimator'']
         (Call (Name ''Chainer'')
            [Kw ''source_directory'' (Name ''project_folder''),
             Kw ''script_params'' (Name ''script_params''),
             Kw ''compute_target'' (Name ''compute_target''),
             Kw ''pip_packages'' (Op ''list'' [Str ''numpy'', Str ''pytest'']),
             Kw ''entry_script'' (Str ''chainer_mnist.py''),
             Kw ''use_gpu'' (Lit ''True'')])],
      [Assign [Name ''run''] (Call (Attr (Name ''experiment'') ''submit'') [Name ''estimator''])],
      [Import ''azureml.widgets.RunDetails'' ''RunDetails'',
       Expr (Call (Attr (Call (Name ''RunDetails'') [Name ''run'']) ''show'') [])],
      [Expr (Call (Name ''print'') [Call (Attr (Name ''run'') ''get_details'') []])],
      [Import ''azureml.train.hyperdrive.runconfig.HyperDriveConfig'' ''HyperDriveConfig'',
       Import ''azureml.train.hyperdrive.sampling.RandomParameterSampling''
         ''RandomParameterSampling'',
       Import ''azureml.train.hyperdrive.policy.BanditPolicy'' ''BanditPolicy'',
       Import ''azureml.train.hyperdrive.run.PrimaryMetricGoal'' ''PrimaryMetricGoal'',
       Import ''azureml.train.hyperdrive.parameter_expressions.choice'' ''choice'',
       Assign [Name ''param_sampling'']
         (Call (Name ''RandomParameterSampling'')
            [Op ''dict''
               [Op ''item'' [Str ''--batchsize'', Call (Name ''choice'') [Num 128, Num 256]],
                Op ''item''
                  [Str ''--epochs'', Call (Name ''choice'') [Num 5, Num 10, Num 20, Num 40]]]]),
       Assign [Name ''hyperdrive_config'']
         (Call (Name ''HyperDriveConfig'')
            [Kw ''estimator'' (Name ''estimator''),
             Kw ''hyperparameter_sampling'' (Name ''param_sampling''),
             Kw ''primary_metric_name'' (Str ''Accuracy''),
             Kw ''policy''
               (Call (Name ''BanditPolicy'')
                  [Kw ''evaluation_interval'' (Num 1), Kw ''slack_factor'' (Lit ''0.1''),
                   Kw ''delay_evaluation'' (Num 3)]),
             Kw ''primary_metric_goal'' (Attr (Name ''PrimaryMetricGoal'') ''MAXIMIZE''),
             Kw ''max_total_runs'' (Num 8), Kw ''max_concurrent_runs'' (Num 4)])],
      [Assign [Name ''hyperdrive_run'']
         (Call (Attr (Name ''experiment'') ''submit'') [Name ''hyperdrive_config''])],
      [Expr (Call (Attr (Call (Name ''RunDetails'') [Name ''hyperdrive_run'']) ''show'') [])],
      [Expr
         (Call (Attr (Name ''hyperdrive_run'') ''wait_for_completion'')
            [Kw ''show_output'' (Lit ''True'')])],
      [Assign [Name ''best_run'']
         (Call (Attr (Name ''hyperdrive_run'') ''get_best_run_by_primary_metric'') []),
       Expr
         (Call (Name ''print'')
            [Index
               (Index (Call (Attr (Name ''best_run'') ''get_details'') [])
                  (Str ''runDefinition''))
               (Str ''arguments'')])],
      [Expr (Call (Name ''print'') [Call (Attr (Name ''best_run'') ''get_file_names'') []])],
      [Assign [Name ''model'']
         (Call (Attr (Name ''best_run'') ''register_model'')
            [Kw ''model_name'' (Str ''chainer-dnn-mnist''),
             Kw ''model_path'' (Str ''outputs/model.npz'')])],
      [Expr
         (Call (Attr (Name ''shutil'') ''copy'')
            [Str ''chainer_score.py'', Name ''project_folder''])],
      [Import ''azureml.core.runconfig.CondaDependencies'' ''CondaDependencies'',
       Assign [Name ''cd''] (Call (Attr (Name ''CondaDependencies'') ''create'') []),
       Expr (Call (Attr (Name ''cd'') ''add_conda_package'') [Str ''numpy'']),
       Expr (Call (Attr (Name ''cd'') ''add_conda_package'') [Str ''chainer'']),
       Expr
         (Call (Attr (Name ''cd'') ''save_to_file'')
            [Kw ''base_directory'' (Str ''./''), Kw ''conda_file_path'' (Str ''myenv.yml'')]),
       Expr (Call (Name ''print'') [Call (Attr (Name ''cd'') ''serialize_to_string'') []])],
      [Import ''azureml.core.webservice.AciWebservice'' ''AciWebservice'',
       Import ''azureml.core.model.InferenceConfig'' ''InferenceConfig'',
       Import ''azureml.core.webservice.Webservice'' ''Webservice'',
       Import ''azureml.core.model.Model'' ''Model'',
       Assign [Name ''inference_config'']
         (Call (Name ''InferenceConfig'')
            [Kw ''runtime'' (Str ''python''), Kw ''entry_script'' (Str ''chainer_score.py''),
             Kw ''conda_file'' (Str ''myenv.yml'')]),
       Assign [Name ''aciconfig'']
         (Call (Attr (Name ''AciWebservice'') ''deploy_configuration'')
            [Kw ''cpu_cores'' (Num 1), Kw ''auth_enabled'' (Lit ''True''),
             Kw ''memory_gb'' (Num 1),
             Kw ''tags''
               (Op ''dict''
                  [Op ''item'' [Str ''name'', Str ''mnist''],
                   Op ''item'' [Str ''framework'', Str ''Chainer'']]),
             Kw ''description'' (Str ''Chainer DNN with MNIST'')]),
       Assign [Name ''service'']
         (Call (Attr (Name ''Model'') ''deploy'')
            [Kw ''workspace'' (Name ''ws''), Kw ''name'' (Str ''chainer-mnist-1''),
             Kw ''models'' (Op ''list'' [Name ''model'']),
             Kw ''inference_config'' (Name ''inference_config''),
             Kw ''deployment_config'' (Name ''aciconfig'')]),
       Expr (Call (Attr (Name ''service'') ''wait_for_deployment'') [Lit ''True'']),
       Expr (Call (Name ''print'') [Attr (Name ''service'') ''state'']),
       Expr (Call (Name ''print'') [Attr (Name ''service'') ''scoring_uri''])],
      [Assign [Op ''tuple'' [Name ''key1'', Name ''Key2'']]
         (Call (Attr (Name ''service'') ''get_keys'') []),
       Expr (Call (Name ''print'') [Name ''key1''])],
      [Magic ''matplotlib inline'', Import ''matplotlib.pyplot'' ''plt'',
       Import ''urllib'' ''urllib'', Import ''gzip'' ''gzip'', Import ''numpy'' ''np'',
       Import ''struct'' ''struct'', Import ''requests'' ''requests'',
       Def ''load_data'' [] [Name ''filename'', Kw ''label'' (Lit ''False'')]
         [With (Call (Attr (Name ''gzip'') ''open'') [Name ''filename'']) [Name ''gz'']
            [Expr
               (Call (Attr (Name ''struct'') ''unpack'')
                  [Str ''I'', Call (Attr (Name ''gz'') ''read'') [Num 4]]),
             Assign [Name ''n_items'']
               (Call (Attr (Name ''struct'') ''unpack'')
                  [Str ''>I'', Call (Attr (Name ''gz'') ''read'') [Num 4]]),
             If (Op ''not'' [Name ''label''])
               [Assign [Name ''n_rows'']
                  (Index
                     (Call (Attr (Name ''struct'') ''unpack'')
                        [Str ''>I'', Call (Attr (Name ''gz'') ''read'') [Num 4]])
                     (Num 0)),
                Assign [Name ''n_cols'']
                  (Index
                     (Call (Attr (Name ''struct'') ''unpack'')
                        [Str ''>I'', Call (Attr (Name ''gz'') ''read'') [Num 4]])
                     (Num 0)),
                Assign [Name ''res'']
                  (Call (Attr (Name ''np'') ''frombuffer'')
                     [Call (Attr (Name ''gz'') ''read'')
                        [Op ''*''
                           [Op ''*'' [Index (Name ''n_items'') (Num 0), Name ''n_rows''],
                            Name ''n_cols'']],
                      Kw ''dtype'' (Attr (Name ''np'') ''uint8'')]),
                Assign [Name ''res'']
                  (Call (Attr (Name ''res'') ''reshape'')
                     [Index (Name ''n_items'') (Num 0),
                      Op ''*'' [Name ''n_rows'', Name ''n_cols'']])]
               [Assign [Name ''res'']
                  (Call (Attr (Name ''np'') ''frombuffer'')
                     [Call (Attr (Name ''gz'') ''read'') [Index (Name ''n_items'') (Num 0)],
                      Kw ''dtype'' (Attr (Name ''np'') ''uint8'')]),
                Assign [Name ''res'']
                  (Call (Attr (Name ''res'') ''reshape'')
                     [Index (Name ''n_items'') (Num 0), Num 1])]],
          Return (Name ''res'')],
       Expr
         (Call (Attr (Name ''os'') ''makedirs'')
            [Str ''./data/mnist'', Kw ''exist_ok'' (Lit ''True'')]),
       Expr
         (Call (Attr (Attr (Name ''urllib'') ''request'') ''urlretrieve'')
            [Str ''http://yann.lecun.com/exdb/mnist/t10k-images-idx3-ubyte.gz'',
             Kw ''filename'' (Str ''./data/mnist/test-images.gz'')]),
       Expr
         (Call (Attr (Attr (Name ''urllib'') ''request'') ''urlretrieve'')
            [Str ''http://yann.lecun.com/exdb/mnist/t10k-labels-idx1-ubyte.gz'',
             Kw ''filename'' (Str ''./data/mnist/test-labels.gz'')]),
       Assign [Name ''X_test'']
         (Call (Name ''load_data'') [Str ''./data/mnist/test-images.gz'', Lit ''False'']),
       Assign [Name ''y_test'']
         (Call
            (Attr
               (Call (Name ''load_data'') [Str ''./data/mnist/test-labels.gz'', Lit ''True''])
               ''reshape'')
            [Num (-1)]),
       Assign [Name ''random_index'']
         (Call (Attr (Attr (Name ''np'') ''random'') ''randint'')
            [Num 0, Op ''-'' [Call (Name ''len'') [Name ''X_test''], Num 1]]),
       Assign [Name ''input_data'']
         (Op ''+''
            [Op ''+''
               [Str (''{'' @ [CHR 0x22] @ ''data'' @ [CHR 0x22] @ '': [''),
                Call (Name ''str'') [Name ''random_index'']],
             Str '']}'']),
       Assign [Name ''headers'']
         (Op ''dict''
            [Op ''item'' [Str ''Content-Type'', Str ''application/json''],
             Op ''item'' [Str ''Authorization'', Op ''+'' [Str ''Bearer '', Name ''key1'']]]),
       Assign [Name ''resp'']
         (Call (Attr (Name ''requests'') ''post'')
            [Attr (Name ''service'') ''scoring_uri'', Name ''input_data'',
             Kw ''headers'' (Name ''headers'')]),
       Expr
         (Call (Name ''print'')
            [Str ''label:'', Index (Name ''y_test'') (Name ''random_index'')]),
       Expr
         (Call (Name ''print'')
            [Str ''prediction:'', Index (Attr (Name ''resp'') ''text'') (Num 1)]),
       Expr
         (Call (Attr (Name ''plt'') ''imshow'')
            [Call (Attr (Index (Name ''X_test'') (Name ''random_index'')) ''reshape'')
               [Op ''tuple'' [Num 28, Num 28]],
             Kw ''cmap'' (Str ''gray'')]),
       Expr (Call (Attr (Name ''plt'') ''axis'') [Str ''off'']),
       Expr (Call (Attr (Name ''plt'') ''show'') [])],
      [Assign [Name ''models''] (Attr (Name ''ws'') ''models''),
       For (Op ''tuple'' [Name ''name'', Name ''model''])
         (Call (Attr (Name ''models'') ''items'') [])
         [Expr
            (Call (Name ''print'')
               [Call (Attr (Str ''Model: {}, ID: {}'') ''format'')
                  [Name ''name'', Attr (Name ''model'') ''id'']])],
       Assign [Name ''webservices''] (Attr (Name ''ws'') ''webservices''),
       For (Op ''tuple'' [Name ''name'', Name ''webservice''])
         (Call (Attr (Name ''webservices'') ''items'') [])
         [Expr
            (Call (Name ''print'')
               [Call (Attr (Str ''Webservice: {}, scoring URI: {}'') ''format'')
                  [Name ''name'', Attr (Name ''webservice'') ''scoring_uri'']])]],
      [Expr (Call (Attr (Name ''service'') ''delete'') [])]]"

text \<open>
  tabular-dataset-inference-iris,
  the file src/contrib/batch_inferencing/tabular-dataset-inference-iris.ipynb:
  17 code cells.
\<close>

definition iris_nb :: "stmt list list" where
  "iris_nb =
     [[Import ''azureml.core.Workspace'' ''Workspace'',
       Assign [Name ''ws''] (Call (Attr (Name ''Workspace'') ''from_config'') []),
       Expr
         (Call (Name ''print'')
            [Op ''+'' [Str ''Workspace name: '', Attr (Name ''ws'') ''name''],
             Op ''+'' [Str ''Azure region: '', Attr (Name ''ws'') ''location''],
             Op ''+'' [Str ''Subscription id: '', Attr (Name ''ws'') ''subscription_id''],
             Op ''+'' [Str ''Resource group: '', Attr (Name ''ws'') ''resource_group''],
             Kw ''sep'' (Str [CHR 0x0A])])],
      [Import ''os'' ''os'', Import ''azureml.core.compute.AmlCompute'' ''AmlCompute'',
       Import ''azureml.core.compute.ComputeTarget'' ''ComputeTarget'',
       Import ''azureml.core.compute_target.ComputeTargetException'' ''ComputeTargetException'',
       Assign [Name ''compute_name'']
         (Call (Attr (Attr (Name ''os'') ''environ'') ''get'')
            [Str ''AML_COMPUTE_CLUSTER_NAME'', Str ''cpu-cluster'']),
       Assign [Name ''compute_min_nodes'']
         (Call (Attr (Attr (Name ''os'') ''environ'') ''get'')
            [Str ''AML_COMPUTE_CLUSTER_MIN_NODES'', Num 0]),
       Assign [Name ''compute_max_nodes'']
         (Call (Attr (Attr (Name ''os'') ''environ'') ''get'')
            [Str ''AML_COMPUTE_CLUSTER_MAX_NODES'', Num 4]),
       Assign [Name ''vm_size'']
         (Call (Attr (Attr (Name ''os'') ''environ'') ''get'')
            [Str ''AML_COMPUTE_CLUSTER_SKU'', Str ''STANDARD_D2_V2'']),
       If (Op ''in'' [Name ''compute_name'', Attr (Name ''ws'') ''compute_targets''])
         [Assign [Name ''compute_target'']
            (Index (Attr (Name ''ws'') ''compute_targets'') (Name ''compute_name'')),
          If
            (Op ''and''
               [Name ''compute_target'',
                Op ''is''
                  [Call (Name ''type'') [Name ''compute_target''], Name ''AmlCompute'']])
            [Expr
               (Call (Name ''print'')
                  [Op ''+''
                     [Str ''found compute target. just use it. '', Name ''compute_name'']])]
            []]
         [Expr (Call (Name ''print'') [Str ''creating a new compute target...'']),
          Assign [Name ''provisioning_config'']
            (Call (Attr (Name ''AmlCompute'') ''provisioning_configuration'')
               [Kw ''vm_size'' (Name ''vm_size''),
                Kw ''min_nodes'' (Name ''compute_min_nodes''),
                Kw ''max_nodes'' (Name ''compute_max_nodes'')]),
          Assign [Name ''compute_target'']
            (Call (Attr (Name ''ComputeTarget'') ''create'')
               [Name ''ws'', Name ''compute_name'', Name ''provisioning_config'']),
          Expr
            (Call (Attr (Name ''compute_target'') ''wait_for_completion'')
               [Kw ''show_output'' (Lit ''True''), Kw ''min_node_count'' (Lit ''None''),
                Kw ''timeout_in_minutes'' (Num 20)]),
          Expr
            (Call (Name ''print'')
               [Call
                  (Attr (Call (Attr (Name ''compute_target'') ''get_status'') [])
                     ''serialize'')
                  []])]],
      [Import ''azureml.core.datastore.Datastore'' ''Datastore'',
       Assign [Name ''account_name''] (Str ''pipelinedata''),
       Assign [Name ''datastore_name''] (Str ''iris_datastore_data''),
       Assign [Name ''container_name''] (Str ''sampledata''),
       Assign [Name ''iris_data'']
         (Call (Attr (Name ''Datastore'') ''register_azure_blob_container'')
            [Name ''ws'', Kw ''datastore_name'' (Name ''datastore_name''),
             Kw ''container_name'' (Name ''container_name''),
             Kw ''account_name'' (Name ''account_name''),
             Kw ''overwrite'' (Lit ''True'')])],
      [Import ''azureml.core.dataset.Dataset'' ''Dataset'',
       Assign [Name ''iris_ds_name''] (Str ''iris_data''),
       Assign [Name ''path_on_datastore'']
         (Call (Attr (Name ''iris_data'') ''path'') [Str ''iris/'']),
       Assign [Name ''input_iris_ds'']
         (Call (Attr (Attr (Name ''Dataset'') ''Tabular'') ''from_delimited_files'')
            [Kw ''path'' (Name ''path_on_datastore''), Kw ''validate'' (Lit ''False'')]),
       Assign [Name ''registered_iris_ds'']
         (Call (Attr (Name ''input_iris_ds'') ''register'')
            [Name ''ws'', Name ''iris_ds_name'', Kw ''create_new_version'' (Lit ''True'')]),
       Assign [Name ''named_iris_ds'']
         (Call (Attr (Name ''registered_iris_ds'') ''as_named_input'') [Name ''iris_ds_name''])],
      [Import ''azureml.pipeline.core.PipelineData'' ''PipelineData'',
       Assign [Name ''datastore''] (Call (Attr (Name ''ws'') ''get_default_datastore'') []),
       Assign [Name ''output_folder'']
         (Call (Name ''PipelineData'')
            [Kw ''name'' (Str ''inferences''), Kw ''datastore'' (Name ''datastore'')])],
      [Assign [Name ''model_container_name''] (Str ''iris-model''),
       Assign [Name ''model_datastore_name''] (Str ''iris_model_datastore''),
       Assign [Name ''model_datastore'']
         (Call (Attr (Name ''Datastore'') ''register_azure_blob_container'')
            [Name ''ws'', Kw ''datastore_name'' (Name ''model_datastore_name''),
             Kw ''container_name'' (Name ''model_container_name''),
             Kw ''account_name'' (Name ''account_name''),
             Kw ''overwrite'' (Lit ''True'')])],
      [Import ''azureml.core.model.Model'' ''Model'',
       Expr (Call (Attr (Name ''model_datastore'') ''download'') [Str ''iris_model.pkl'']),
       Assign [Name ''model'']
         (Call (Attr (Name ''Model'') ''register'')
            [Kw ''model_path'' (Str ''iris_model.pkl/iris_model.pkl''),
             Kw ''model_name'' (Str ''iris''),
             Kw ''tags'' (Op ''dict'' [Op ''item'' [Str ''pretrained'', Str ''iris'']]),
             Kw ''workspace'' (Name ''ws'')])],
      [Assign [Name ''scripts_folder''] (Str ''Code''),
       Assign [Name ''script_file''] (Str ''iris_score.py''),
       With
         (Call (Name ''open'')
            [Call (Attr (Attr (Name ''os'') ''path'') ''join'')
               [Name ''scripts_folder'', Name ''script_file'']])
         [Name ''inference_file'']
         [Expr (Call (Name ''print'') [Call (Attr (Name ''inference_file'') ''read'') []])]],
      [Import ''azureml.core.Environment'' ''Environment'',
       Import ''azureml.core.runconfig.CondaDependencies'' ''CondaDependencies'',
       Assign [Name ''predict_conda_deps'']
         (Call (Attr (Name ''CondaDependencies'') ''create'')
            [Kw ''pip_packages'' (Op ''list'' [Str ''scikit-learn==0.20.3''])]),
       Assign [Name ''predict_env'']
         (Call (Name ''Environment'') [Kw ''name'' (Str ''predict_environment'')]),
       Assign [Attr (Attr (Name ''predict_env'') ''python'') ''conda_dependencies'']
         (Name ''predict_conda_deps''),
       Assign [Attr (Attr (Name ''predict_env'') ''docker'') ''enabled''] (Lit ''True''),
       Assign [Attr (Attr (Name ''predict_env'') ''spark'') ''precache_packages'']
         (Lit ''False'')],
      [Import ''azureml.contrib.pipeline.steps.ParallelRunStep'' ''ParallelRunStep'',
       Import ''azureml.contrib.pipeline.steps.ParallelRunConfig'' ''ParallelRunConfig'',
       Assign [Name ''parallel_run_config'']
         (Call (Name ''ParallelRunConfig'')
            [Kw ''source_directory'' (Name ''scripts_folder''),
             Kw ''entry_script'' (Name ''script_file''),
             Kw ''mini_batch_size'' (Str ''5MB''), Kw ''error_threshold'' (Num 5),
             Kw ''output_action'' (Str ''append_row''),
             Kw ''environment'' (Name ''predict_env''),
             Kw ''compute_target'' (Name ''compute_target''),
             Kw ''node_count'' (Num 3), Kw ''run_invocation_timeout'' (Num 600)])],
      [Assign [Name ''distributed_csv_iris_step'']
         (Call (Name ''ParallelRunStep'')
            [Kw ''name'' (Str ''example-iris''),
             Kw ''inputs'' (Op ''list'' [Name ''named_iris_ds'']),
             Kw ''output'' (Name ''output_folder''),
             Kw ''parallel_run_config'' (Name ''parallel_run_config''),
             Kw ''models'' (Op ''list'' [Name ''model'']),
             Kw ''arguments'' (Op ''list'' [Str ''--model_name'', Str ''iris'']),
             Kw ''allow_reuse'' (Lit ''True'')])],
      [Import ''azureml.core.Experiment'' ''Experiment'',
       Import ''azureml.pipeline.core.Pipeline'' ''Pipeline'',
       Assign [Name ''pipeline'']
         (Call (Name ''Pipeline'')
            [Kw ''workspace'' (Name ''ws''),
             Kw ''steps'' (Op ''list'' [Name ''distributed_csv_iris_step''])]),
       Assign [Name ''pipeline_run'']
         (Call (Attr (Call (Name ''Experiment'') [Name ''ws'', Str ''iris'']) ''submit'')
            [Name ''pipeline''])],
      [Expr (Name ''pipeline_run'')],
      [Import ''azureml.widgets.RunDetails'' ''RunDetails'',
       Expr (Call (Attr (Call (Name ''RunDetails'') [Name ''pipeline_run'']) ''show'') [])],
      [Expr
         (Call (Attr (Name ''pipeline_run'') ''wait_for_completion'')
            [Kw ''show_output'' (Lit ''True'')])],
      [Import ''pandas'' ''pd'', Import ''shutil'' ''shutil'',
       Expr
         (Call (Attr (Name ''shutil'') ''rmtree'')
            [Str ''iris_results'', Kw ''ignore_errors'' (Lit ''True'')]),
       Assign [Name ''prediction_run'']
         (Call (Name ''next'') [Call (Attr (Name ''pipeline_run'') ''get_children'') []]),
       Assign [Name ''prediction_output'']
         (Call (Attr (Name ''prediction_run'') ''get_output_data'') [Str ''inferences'']),
       Expr
         (Call (Attr (Name ''prediction_output'') ''download'')
            [Kw ''local_path'' (Str ''iris_results'')]),
       For (Op ''tuple'' [Name ''root'', Name ''dirs'', Name ''files''])
         (Call (Attr (Name ''os'') ''walk'') [Str ''iris_results''])
         [For (Name ''file'') (Name ''files'')
            [If (Call (Attr (Name ''file'') ''endswith'') [Str ''parallel_run_step.txt''])
               [Assign [Name ''result_file'']
                  (Call (Attr (Attr (Name ''os'') ''path'') ''join'')
                     [Name ''root'', Name ''file''])]
               []]],
       Assign [Name ''df'']
         (Call (Attr (Name ''pd'') ''read_csv'')
            [Name ''result_file'', Kw ''delimiter'' (Str '' ''), Kw ''header'' (Lit ''None'')]),
       Assign [Attr (Name ''df'') ''columns'']
         (Op ''list''
            [Str ''sepal.length'', Str ''sepal.width'', Str ''petal.length'',
             Str ''petal.width'', Str ''variety'']),
       Expr
         (Call (Name ''print'')
            [Str ''Prediction has '', Index (Attr (Name ''df'') ''shape'') (Num 0),
             Str '' rows'']),
       Assign [Name ''random_subset'']
         (Call (Attr (Name ''df'') ''sample'') [Kw ''n'' (Num 20)]),
       Expr (Call (Attr (Name ''random_subset'') ''head'') [Num 20])],
      []]"

text \<open>
  drift-on-aks,
  the file src/how-to-use-azureml/monitor-models/data-drift/drift-on-aks.ipynb:
  21 code cells.
\<close>

definition drift_nb :: "stmt list list" where
  "drift_nb =
     [[Import ''azureml.core'' ''azureml'',
       Expr
         (Call (Name ''print'')
            [Str ''SDK version:'', Attr (Attr (Name ''azureml'') ''core'') ''VERSION''])],
      [Import ''azureml.core.Workspace'' ''Workspace'',
       Assign [Name ''ws''] (Call (Attr (Name ''Workspace'') ''from_config'') []),
       Expr (Name ''ws'')],
      [Assign [Name ''dstore''] (Call (Attr (Name ''ws'') ''get_default_datastore'') []),
       Expr
         (Call (Attr (Name ''dstore'') ''upload'')
            [Str ''training-dataset'', Str ''drift-on-aks-data'',
             Kw ''overwrite'' (Lit ''True''), Kw ''show_progress'' (Lit ''False'')])],
      [Import ''azureml.core.Dataset'' ''Dataset'',
       Assign [Name ''dset'']
         (Call (Attr (Attr (Name ''Dataset'') ''Tabular'') ''from_delimited_files'')
            [Call (Attr (Name ''dstore'') ''path'') [Str ''drift-on-aks-data/training.csv'']]),
       Assign [Name ''dset'']
         (Call (Attr (Name ''dset'') ''register'') [Name ''ws'', Str ''drift-demo-dataset'']),
       Assign [Name ''dset'']
         (Call (Attr (Name ''Dataset'') ''get_by_name'')
            [Name ''ws'', Str ''drift-demo-dataset''])],
      [Import ''azureml.core.model.Model'' ''Model'',
       Assign [Name ''model'']
         (Call (Attr (Name ''Model'') ''register'')
            [Kw ''model_path'' (Str ''elevation-regression-model.pkl''),
             Kw ''model_name'' (Str ''elevation-regression-model.pkl''),
             Kw ''tags''
               (Op ''dict''
                  [Op ''item'' [Str ''area'', Str ''weather''],
                   Op ''item'' [Str ''type'', Str ''linear regression'']]),
             Kw ''description''
               (Str ''Linear regression model to predict elevation based on the weather''),
             Kw ''workspace'' (Name ''ws''),
             Kw ''datasets''
               (Op ''list''
                  [Op ''tuple''
                     [Attr (Attr (Name ''Dataset'') ''Scenario'') ''TRAINING'',
                      Name ''dset'']])])],
      [Import ''azureml.core.Environment'' ''Environment'',
       Assign [Name ''env'']
         (Call (Attr (Name ''Environment'') ''from_conda_specification'')
            [Kw ''name'' (Str ''deploytocloudenv''), Kw ''file_path'' (Str ''myenv.yml'')])],
      [Import ''azureml.core.model.InferenceConfig'' ''InferenceConfig'',
       Assign [Name ''inference_config'']
         (Call (Name ''InferenceConfig'')
            [Kw ''entry_script'' (Str ''score.py''), Kw ''environment'' (Name ''env'')])],
      [Import ''azureml.core.compute.AksCompute'' ''AksCompute'',
       Import ''azureml.core.compute.ComputeTarget'' ''ComputeTarget'',
       Assign [Name ''prov_config'']
         (Call (Attr (Name ''AksCompute'') ''provisioning_configuration'') []),
       Assign [Name ''aks_name''] (Str ''drift-aks''),
       Try
         [Assign [Name ''aks_target'']
            (Index (Attr (Name ''ws'') ''compute_targets'') (Name ''aks_name''))]
         [Except (Name ''KeyError'') []
            [Assign [Name ''aks_target'']
               (Call (Attr (Name ''ComputeTarget'') ''create'')
                  [Kw ''workspace'' (Name ''ws''), Kw ''name'' (Name ''aks_name''),
                   Kw ''provisioning_configuration'' (Name ''prov_config'')]),
             Expr
               (Call (Attr (Name ''aks_target'') ''wait_for_completion'')
                  [Kw ''show_output'' (Lit ''True'')])]]],
      [Import ''azureml.core.webservice.AksWebservice'' ''AksWebservice'',
       Assign [Name ''deployment_config'']
         (Call (Attr (Name ''AksWebservice'') ''deploy_configuration'')
            [Kw ''cpu_cores'' (Num 1), Kw ''memory_gb'' (Num 1),
             Kw ''collect_model_data'' (Lit ''True'')]),
       Assign [Name ''service_name''] (Str ''drift-aks-service''),
       Assign [Name ''service'']
         (Call (Attr (Name ''Model'') ''deploy'')
            [Name ''ws'', Name ''service_name'', Op ''list'' [Name ''model''],
             Name ''inference_config'', Name ''deployment_config'', Name ''aks_target'']),
       Expr (Call (Attr (Name ''service'') ''wait_for_deployment'') [Lit ''True'']),
       Expr (Call (Name ''print'') [Attr (Name ''service'') ''state''])],
      [Import ''datetime.datetime'' ''datetime'',
       Import ''datetime.timedelta'' ''timedelta'',
       Import ''azureml.opendatasets.NoaaIsdWeather'' ''NoaaIsdWeather'',
       Assign [Name ''start'']
         (Op ''-''
            [Call (Attr (Name ''datetime'') ''today'') [],
             Call (Name ''timedelta'') [Kw ''days'' (Num 2)]]),
       Assign [Name ''end''] (Call (Attr (Name ''datetime'') ''today'') []),
       Assign [Name ''isd''] (Call (Name ''NoaaIsdWeather'') [Name ''start'', Name ''end'']),
       Assign [Name ''df'']
         (Call (Attr (Call (Attr (Name ''isd'') ''to_pandas_dataframe'') []) ''fillna'')
            [Num 0]),
       Assign [Name ''df'']
         (Index (Name ''df'')
            (Call
               (Attr (Attr (Index (Name ''df'') (Str ''stationName'')) ''str'') ''contains'')
               [Str ''FLORIDA'', Kw ''regex'' (Lit ''True''), Kw ''na'' (Lit ''False'')])),
       Assign [Name ''X_features'']
         (Op ''list''
            [Str ''latitude'', Str ''longitude'', Str ''temperature'', Str ''windAngle'',
             Str ''windSpeed'']),
       Assign [Name ''y_features''] (Op ''list'' [Str ''elevation'']),
       Assign [Name ''X''] (Index (Name ''df'') (Name ''X_features'')),
       Assign [Name ''y''] (Index (Name ''df'') (Name ''y_features''))],
      [Import ''json'' ''json'',
       Assign [Name ''today_data'']
         (Call (Attr (Name ''json'') ''dumps'')
            [Op ''dict''
               [Op ''item''
                  [Str ''data'', Call (Attr (Attr (Name ''X'') ''values'') ''tolist'') []]]]),
       Assign [Name ''data_encoded'']
         (Call (Name ''bytes'') [Name ''today_data'', Kw ''encoding'' (Str ''utf8'')]),
       Assign [Name ''prediction'']
         (Call (Attr (Name ''service'') ''run'') [Kw ''input_data'' (Name ''data_encoded'')]),
       Expr (Call (Name ''print'') [Name ''prediction''])],
      [Import ''azureml.core.compute.AmlCompute'' ''AmlCompute'',
       Assign [Name ''compute_name''] (Str ''cpu-cluster''),
       If (Op ''in'' [Name ''compute_name'', Attr (Name ''ws'') ''compute_targets''])
         [Assign [Name ''compute_target'']
            (Index (Attr (Name ''ws'') ''compute_targets'') (Name ''compute_name'')),
          If
            (Op ''and''
               [Name ''compute_target'',
                Op ''is''
                  [Call (Name ''type'') [Name ''compute_target''], Name ''AmlCompute'']])
            [Expr
               (Call (Name ''print'')
                  [Op ''+''
                     [Str ''found compute target. just use it. '', Name ''compute_name'']])]
            []]
         [Expr (Call (Name ''print'') [Str ''creating a new compute target...'']),
          Assign [Name ''provisioning_config'']
            (Call (Attr (Name ''AmlCompute'') ''provisioning_configuration'')
               [Kw ''vm_size'' (Str ''STANDARD_D3_V2''), Kw ''min_nodes'' (Num 0),
                Kw ''max_nodes'' (Num 2)]),
          Assign [Name ''compute_target'']
            (Call (Attr (Name ''ComputeTarget'') ''create'')
               [Name ''ws'', Name ''compute_name'', Name ''provisioning_config'']),
          Expr
            (Call (Attr (Name ''compute_target'') ''wait_for_completion'')
               [Kw ''show_output'' (Lit ''True''), Kw ''min_node_count'' (Lit ''None''),
                Kw ''timeout_in_minutes'' (Num 20)]),
          Expr
            (Call (Name ''print'')
               [Call
                  (Attr (Call (Attr (Name ''compute_target'') ''get_status'') [])
                     ''serialize'')
                  []])]],
      [Import ''time'' ''time'', Expr (Call (Attr (Name ''time'') ''sleep'') [Num 600])],
      [Import ''azureml.datadrift.DataDriftDetector'' ''DataDriftDetector'',
       Import ''azureml.datadrift.AlertConfiguration'' ''AlertConfiguration'',
       Assign [Name ''services''] (Op ''list'' [Name ''service_name'']),
       Assign [Name ''start'']
         (Op ''-''
            [Call (Attr (Name ''datetime'') ''now'') [],
             Call (Name ''timedelta'') [Kw ''days'' (Num 2)]]),
       Assign [Name ''feature_list''] (Name ''X_features''),
       Assign [Name ''alert_config'']
         (Call (Name ''AlertConfiguration'') [Op ''list'' [Str ''user@contoso.com'']]),
       Try
         [Assign [Name ''monitor'']
            (Call (Attr (Name ''DataDriftDetector'') ''create_from_model'')
               [Name ''ws'', Attr (Name ''model'') ''name'',
                Attr (Name ''model'') ''version'', Name ''services'',
                Kw ''frequency'' (Str ''Day''),
                Kw ''schedule_start''
                  (Op ''+''
                     [Call (Attr (Name ''datetime'') ''utcnow'') [],
                      Call (Name ''timedelta'') [Kw ''days'' (Num 1)]]),
                Kw ''alert_config'' (Name ''alert_config''),
                Kw ''compute_target'' (Str ''cpu-cluster'')])]
         [Except (Name ''KeyError'') []
            [Assign [Name ''monitor'']
               (Call (Attr (Name ''DataDriftDetector'') ''get'')
                  [Name ''ws'', Attr (Name ''model'') ''name'',
                   Attr (Name ''model'') ''version''])]],
       Expr (Name ''monitor'')],
      [Assign [Name ''monitor'']
         (Call (Attr (Name ''monitor'') ''update'') [Kw ''drift_threshold'' (Lit ''0.1'')]),
       Expr (Name ''monitor'')],
      [Assign [Name ''now''] (Call (Attr (Name ''datetime'') ''utcnow'') []),
       Assign [Name ''target_date'']
         (Call (Name ''datetime'')
            [Attr (Name ''now'') ''year'', Attr (Name ''now'') ''month'',
             Attr (Name ''now'') ''day'']),
       Assign [Name ''run'']
         (Call (Attr (Name ''monitor'') ''run'')
            [Name ''target_date'', Name ''services'',
             Kw ''feature_list'' (Name ''feature_list''),
             Kw ''compute_target'' (Str ''cpu-cluster'')])],
      [Expr (Call (Attr (Name ''time'') ''sleep'') [Num 1200])],
      [Assign [Name ''child_run'']
         (Index (Call (Name ''list'') [Call (Attr (Name ''run'') ''get_children'') []]) (Num 0)),
       Assign [Op ''tuple'' [Name ''results'', Name ''metrics'']]
         (Call (Attr (Name ''monitor'') ''get_output'')
            [Kw ''run_id'' (Attr (Name ''child_run'') ''id'')])],
      [Assign [Name ''drift_plots''] (Call (Attr (Name ''monitor'') ''show'') [])],
      [Expr (Call (Attr (Name ''monitor'') ''enable_schedule'') [])],
      []]"

text \<open>
  auto-ml-classification-bank-marketing-all-features,
  the file src/how-to-use-azureml/automated-machine-learning/classification-bank-marketing-all-features/auto-ml-classification-bank-marketing-all-features.ipynb:
  37 code cells.
\<close>

definition bank_nb :: "stmt list list" where
  "bank_nb =
     [[Import ''logging'' ''logging'', Import ''matplotlib.pyplot'' ''plt'',
       Import ''pandas'' ''pd'', Import ''os'' ''os'', Import ''azureml.core'' ''azureml'',
       Import ''azureml.core.experiment.Experiment'' ''Experiment'',
       Import ''azureml.core.workspace.Workspace'' ''Workspace'',
       Import ''azureml.automl.core.featurization.FeaturizationConfig'' ''FeaturizationConfig'',
       Import ''azureml.core.dataset.Dataset'' ''Dataset'',
       Import ''azureml.train.automl.AutoMLConfig'' ''AutoMLConfig'',
       Import ''azureml.explain.model._internal.explanation_client.ExplanationClient''
         ''ExplanationClient''],
      [Assign [Name ''ws''] (Call (Attr (Name ''Workspace'') ''from_config'') []),
       Assign [Name ''experiment_name''] (Str ''automl-classification-bmarketing-all''),
       Assign [Name ''experiment'']
         (Call (Name ''Experiment'') [Name ''ws'', Name ''experiment_name'']),
       Assign [Name ''output''] (Op ''dict'' []),
       Assign [Index (Name ''output'') (Str ''SDK version'')]
         (Attr (Attr (Name ''azureml'') ''core'') ''VERSION''),
       Assign [Index (Name ''output'') (Str ''Subscription ID'')]
         (Attr (Name ''ws'') ''subscription_id''),
       Assign [Index (Name ''output'') (Str ''Workspace'')] (Attr (Name ''ws'') ''name''),
       Assign [Index (Name ''output'') (Str ''Resource Group'')]
         (Attr (Name ''ws'') ''resource_group''),
       Assign [Index (Name ''output'') (Str ''Location'')] (Attr (Name ''ws'') ''location''),
       Assign [Index (Name ''output'') (Str ''Experiment Name'')]
         (Attr (Name ''experiment'') ''name''),
       Expr (Call (Attr (Name ''pd'') ''set_option'') [Str ''display.max_colwidth'', Num (-1)]),
       Assign [Name ''outputDf'']
         (Call (Attr (Name ''pd'') ''DataFrame'')
            [Kw ''data'' (Name ''output''), Kw ''index'' (Op ''list'' [Str ''''])]),
       Expr (Attr (Name ''outputDf'') ''T'')],
      [Import ''azureml.core.compute.AmlCompute'' ''AmlCompute'',
       Import ''azureml.core.compute.ComputeTarget'' ''ComputeTarget'',
       Assign [Name ''amlcompute_cluster_name''] (Str ''cpu-cluster-4''),
       Assign [Name ''found''] (Lit ''False''),
       Assign [Name ''cts''] (Attr (Name ''ws'') ''compute_targets''),
       If
         (Op ''and''
            [Op ''in'' [Name ''amlcompute_cluster_name'', Name ''cts''],
             Op ''==''
               [Attr (Index (Name ''cts'') (Name ''amlcompute_cluster_name'')) ''type'',
                Str ''AmlCompute'']])
         [Assign [Name ''found''] (Lit ''True''),
          Expr (Call (Name ''print'') [Str ''Found existing compute target.'']),
          Assign [Name ''compute_target'']
            (Index (Name ''cts'') (Name ''amlcompute_cluster_name''))]
         [],
       If (Op ''not'' [Name ''found''])
         [Expr (Call (Name ''print'') [Str ''Creating a new compute target...'']),
          Assign [Name ''provisioning_config'']
            (Call (Attr (Name ''AmlCompute'') ''provisioning_configuration'')
               [Kw ''vm_size'' (Str ''STANDARD_D2_V2''), Kw ''max_nodes'' (Num 6)]),
          Assign [Name ''compute_target'']
            (Call (Attr (Name ''ComputeTarget'') ''create'')
               [Name ''ws'', Name ''amlcompute_cluster_name'', Name ''provisioning_config''])]
         [],
       Expr (Call (Name ''print'') [Str ''Checking cluster status...'']),
       Expr
         (Call (Attr (Name ''compute_target'') ''wait_for_completion'')
            [Kw ''show_output'' (Lit ''True''), Kw ''min_node_count'' (Lit ''None''),
             Kw ''timeout_in_minutes'' (Num 20)])],
      [Assign [Name ''data'']
         (Call (Attr (Name ''pd'') ''read_csv'')
            [Str
               ''https://automlsamplenotebookdata.blob.core.windows.net/automl-sample-notebook-data/bankmarketing_train.csv'']),
       Expr (Call (Attr (Name ''data'') ''head'') [])],
      [Import ''numpy'' ''np'', Assign [Name ''missing_rate''] (Lit ''0.75''),
       Assign [Name ''n_missing_samples'']
         (Call (Name ''int'')
            [Call (Attr (Name ''np'') ''floor'')
               [Op ''*''
                  [Index (Attr (Name ''data'') ''shape'') (Num 0), Name ''missing_rate'']]]),
       Assign [Name ''missing_samples'']
         (Call (Attr (Name ''np'') ''hstack'')
            [Op ''tuple''
               [Call (Attr (Name ''np'') ''zeros'')
                  [Op ''-''
                     [Index (Attr (Name ''data'') ''shape'') (Num 0),
                      Name ''n_missing_samples''],
                   Kw ''dtype'' (Attr (Name ''np'') ''bool'')],
                Call (Attr (Name ''np'') ''ones'')
                  [Name ''n_missing_samples'', Kw ''dtype'' (Attr (Name ''np'') ''bool'')]]]),
       Assign [Name ''rng'']
         (Call (Attr (Attr (Name ''np'') ''random'') ''RandomState'') [Num 0]),
       Expr (Call (Attr (Name ''rng'') ''shuffle'') [Name ''missing_samples'']),
       Assign [Name ''missing_features'']
         (Call (Attr (Name ''rng'') ''randint'')
            [Num 0, Index (Attr (Name ''data'') ''shape'') (Num 1), Name ''n_missing_samples'']),
       Assign
         [Index (Attr (Name ''data'') ''values'')
            (Op ''tuple''
               [Index (Call (Attr (Name ''np'') ''where'') [Name ''missing_samples''])
                  (Num 0),
                Name ''missing_features''])]
         (Attr (Name ''np'') ''nan'')],
      [If (Op ''not'' [Call (Attr (Attr (Name ''os'') ''path'') ''isdir'') [Str ''data'']])
         [Expr (Call (Attr (Name ''os'') ''mkdir'') [Str ''data''])]
         [],
       Expr
         (Call (Attr (Call (Attr (Name ''pd'') ''DataFrame'') [Name ''data'']) ''to_csv'')
            [Str ''data/train_data.csv'', Kw ''index'' (Lit ''False'')]),
       Assign [Name ''ds''] (Call (Attr (Name ''ws'') ''get_default_datastore'') []),
       Expr
         (Call (Attr (Name ''ds'') ''upload'')
            [Kw ''src_dir'' (Str ''./data''), Kw ''target_path'' (Str ''bankmarketing''),
             Kw ''overwrite'' (Lit ''True''), Kw ''show_progress'' (Lit ''True'')]),
       Assign [Name ''train_data'']
         (Call (Attr (Attr (Name ''Dataset'') ''Tabular'') ''from_delimited_files'')
            [Kw ''path''
               (Call (Attr (Name ''ds'') ''path'') [Str ''bankmarketing/train_data.csv''])]),
       Assign [Name ''label''] (Str ''y'')],
      [Assign [Name ''validation_data'']
         (Str
            ''https://automlsamplenotebookdata.blob.core.windows.net/automl-sample-notebook-data/bankmarketing_validate.csv''),
       Assign [Name ''validation_dataset'']
         (Call (Attr (Attr (Name ''Dataset'') ''Tabular'') ''from_delimited_files'')
            [Name ''validation_data''])],
      [Assign [Name ''test_data'']
         (Str
            ''https://automlsamplenotebookdata.blob.core.windows.net/automl-sample-notebook-data/bankmarketing_test.csv''),
       Assign [Name ''test_dataset'']
         (Call (Attr (Attr (Name ''Dataset'') ''Tabular'') ''from_delimited_files'')
            [Name ''test_data''])],
      [Assign [Name ''automl_settings'']
         (Op ''dict''
            [Op ''item'' [Str ''experiment_timeout_minutes'', Num 20],
             Op ''item'' [Str ''enable_early_stopping'', Lit ''True''],
             Op ''item'' [Str ''iteration_timeout_minutes'', Num 5],
             Op ''item'' [Str ''max_concurrent_iterations'', Num 4],
             Op ''item'' [Str ''max_cores_per_iteration'', Num (-1)],
             Op ''item'' [Str ''primary_metric'', Str ''AUC_weighted''],
             Op ''item'' [Str ''featurization'', Str ''auto''],
             Op ''item'' [Str ''verbosity'', Attr (Name ''logging'') ''INFO'']]),
       Assign [Name ''automl_config'']
         (Call (Name ''AutoMLConfig'')
            [Kw ''task'' (Str ''classification''),
             Kw ''debug_log'' (Str ''automl_errors.log''),
             Kw ''compute_target'' (Name ''compute_target''),
             Kw ''experiment_exit_score'' (Lit ''0.9984''),
             Kw ''blacklist_models'' (Op ''list'' [Str ''KNN'', Str ''LinearSVM'']),
             Kw ''enable_onnx_compatible_models'' (Lit ''True''),
             Kw ''training_data'' (Name ''train_data''),
             Kw ''label_column_name'' (Name ''label''),
             Kw ''validation_data'' (Name ''validation_dataset''),
             Kw ''model_explainability'' (Lit ''True''),
             Kw ''**'' (Name ''automl_settings'')])],
      [Assign [Name ''remote_run'']
         (Call (Attr (Name ''experiment'') ''submit'')
            [Name ''automl_config'', Kw ''show_output'' (Lit ''False'')])],
      [Expr (Name ''remote_run'')], [],
      [Expr (Call (Attr (Name ''remote_run'') ''wait_for_completion'') [])],
      [Assign [Op ''tuple'' [Name ''best_run_customized'', Name ''fitted_model_customized'']]
         (Call (Attr (Name ''remote_run'') ''get_output'') [])],
      [Assign [Name ''custom_featurizer'']
         (Index (Attr (Name ''fitted_model_customized'') ''named_steps'')
            (Str ''datatransformer'')),
       Assign [Name ''df'']
         (Call (Attr (Name ''custom_featurizer'') ''get_featurization_summary'') []),
       Expr (Call (Attr (Name ''pd'') ''DataFrame'') [Kw ''data'' (Name ''df'')])],
      [Assign [Name ''df'']
         (Call (Attr (Name ''custom_featurizer'') ''get_featurization_summary'')
            [Kw ''is_user_friendly'' (Lit ''False'')]),
       Expr (Call (Attr (Name ''pd'') ''DataFrame'') [Kw ''data'' (Name ''df'')])],
      [Assign [Name ''df'']
         (Call (Attr (Name ''custom_featurizer'') ''get_stats_feature_type_summary'') []),
       Expr (Call (Attr (Name ''pd'') ''DataFrame'') [Kw ''data'' (Name ''df'')])],
      [Import ''azureml.widgets.RunDetails'' ''RunDetails'',
       Expr (Call (Attr (Call (Name ''RunDetails'') [Name ''remote_run'']) ''show'') [])],
      [Import ''azureml.train.automl.run.AutoMLRun'' ''AutoMLRun'',
       Assign [Name ''model_explainability_run_id'']
         (Call (Attr (Call (Attr (Name ''remote_run'') ''get_properties'') []) ''get'')
            [Str ''ModelExplainRunId'']),
       Expr (Call (Name ''print'') [Name ''model_explainability_run_id'']),
       If (Op ''is not'' [Name ''model_explainability_run_id'', Lit ''None''])
         [Assign [Name ''model_explainability_run'']
            (Call (Name ''AutoMLRun'')
               [Kw ''experiment'' (Name ''experiment''),
                Kw ''run_id'' (Name ''model_explainability_run_id'')]),
          Expr (Call (Attr (Name ''model_explainability_run'') ''wait_for_completion'') [])]
         [],
       Assign [Op ''tuple'' [Name ''best_run'', Name ''fitted_model'']]
         (Call (Attr (Name ''remote_run'') ''get_output'') [])],
      [Assign [Name ''client'']
         (Call (Attr (Name ''ExplanationClient'') ''from_run'') [Name ''best_run'']),
       Assign [Name ''engineered_explanations'']
         (Call (Attr (Name ''client'') ''download_model_explanation'')
            [Kw ''raw'' (Lit ''False'')]),
       Assign [Name ''exp_data'']
         (Call (Attr (Name ''engineered_explanations'') ''get_feature_importance_dict'') []),
       Expr (Name ''exp_data'')],
      [Assign [Name ''client'']
         (Call (Attr (Name ''ExplanationClient'') ''from_run'') [Name ''best_run'']),
       Assign [Name ''engineered_explanations'']
         (Call (Attr (Name ''client'') ''download_model_explanation'')
            [Kw ''raw'' (Lit ''True'')]),
       Assign [Name ''exp_data'']
         (Call (Attr (Name ''engineered_explanations'') ''get_feature_importance_dict'') []),
       Expr (Name ''exp_data'')],
      [Assign [Op ''tuple'' [Name ''best_run'', Name ''onnx_mdl'']]
         (Call (Attr (Name ''remote_run'') ''get_output'')
            [Kw ''return_onnx_model'' (Lit ''True'')])],
      [Import ''azureml.automl.core.onnx_convert.OnnxConverter'' ''OnnxConverter'',
       Assign [Name ''onnx_fl_path''] (Str ''./best_model.onnx''),
       Expr
         (Call (Attr (Name ''OnnxConverter'') ''save_onnx_model'')
            [Name ''onnx_mdl'', Name ''onnx_fl_path''])],
      [Assign [Name ''test_df'']
         (Call (Attr (Name ''test_dataset'') ''to_pandas_dataframe'') [])],
      [Import ''sys'' ''sys'', Import ''json'' ''json'',
       Import ''azureml.automl.core.onnx_convert.OnnxConvertConstants'' ''OnnxConvertConstants'',
       Import ''azureml.train.automl.constants'' ''constants'',
       If
         (Op ''<''
            [Attr (Name ''sys'') ''version_info'',
             Attr (Name ''OnnxConvertConstants'') ''OnnxIncompatiblePythonVersion''])
         [Assign [Name ''python_version_compatible''] (Lit ''True'')]
         [Assign [Name ''python_version_compatible''] (Lit ''False'')],
       Assign [Name ''onnxrt_present''] (Lit ''False''),
       Try
         [Import ''onnxruntime'' ''onnxruntime'',
          Import ''azureml.automl.core.onnx_convert.OnnxInferenceHelper''
            ''OnnxInferenceHelper'',
          Import ''onnxruntime.__version__'' ''ORT_VER'',
          If (Op ''=='' [Name ''ORT_VER'', Str ''0.4.0''])
            [Assign [Name ''onnxrt_present''] (Lit ''True'')]
            []]
         [Except (Name ''ImportError'') [] [Assign [Name ''onnxrt_present''] (Lit ''False'')]],
       If (Op ''not'' [Name ''onnxrt_present''])
         [Expr (Call (Name ''print'') [Str ''Installing the onnxruntime version 0.4.0.'']),
          Shell ''{sys.executable} -m pip install --user --force-reinstall onnxruntime==0.4.0'',
          Assign [Name ''onnxrt_present''] (Lit ''True'')]
         [],
       Def ''get_onnx_res'' [] [Name ''run'']
         [Assign [Name ''res_path''] (Str ''onnx_resource.json''),
          Expr
            (Call (Attr (Name ''run'') ''download_file'')
               [Kw ''name'' (Attr (Name ''constants'') ''MODEL_RESOURCE_PATH_ONNX''),
                Kw ''output_file_path'' (Name ''res_path'')]),
          With (Call (Name ''open'') [Name ''res_path'']) [Name ''f'']
            [Assign [Name ''onnx_res''] (Call (Attr (Name ''json'') ''load'') [Name ''f''])],
          Return (Name ''onnx_res'')],
       If (Op ''and'' [Name ''onnxrt_present'', Name ''python_version_compatible''])
         [Assign [Name ''mdl_bytes'']
            (Call (Attr (Name ''onnx_mdl'') ''SerializeToString'') []),
          Assign [Name ''onnx_res''] (Call (Name ''get_onnx_res'') [Name ''best_run'']),
          Assign [Name ''onnxrt_helper'']
            (Call (Name ''OnnxInferenceHelper'') [Name ''mdl_bytes'', Name ''onnx_res'']),
          Assign [Op ''tuple'' [Name ''pred_onnx'', Name ''pred_prob_onnx'']]
            (Call (Attr (Name ''onnxrt_helper'') ''predict'') [Name ''test_df'']),
          Expr (Call (Name ''print'') [Name ''pred_onnx'']),
          Expr (Call (Name ''print'') [Name ''pred_prob_onnx''])]
         [If (Op ''not'' [Name ''python_version_compatible''])
            [Expr
               (Call (Name ''print'')
                  [Str ''Please use Python version 3.6 or 3.7 to run the inference helper.''])]
            [],
          If (Op ''not'' [Name ''onnxrt_present''])
            [Expr
               (Call (Name ''print'')
                  [Str
                     ''Please install the onnxruntime package to do the prediction with ONNX model.''])]
            []]],
      [Assign [Op ''tuple'' [Name ''best_run'', Name ''fitted_model'']]
         (Call (Attr (Name ''remote_run'') ''get_output'') [])],
      [Import ''os'' ''os'', Import ''shutil'' ''shutil'',
       Assign [Name ''sript_folder'']
         (Call (Attr (Attr (Name ''os'') ''path'') ''join'')
            [Call (Attr (Name ''os'') ''getcwd'') [], Str ''inference'']),
       Assign [Name ''project_folder''] (Str ''/inference''),
       Expr
         (Call (Attr (Name ''os'') ''makedirs'')
            [Name ''project_folder'', Kw ''exist_ok'' (Lit ''True'')])],
      [Assign [Name ''model_name'']
         (Index (Attr (Name ''best_run'') ''properties'') (Str ''model_name'')),
       Assign [Name ''script_file_name''] (Str ''inference/score.py''),
       Assign [Name ''conda_env_file_name''] (Str ''inference/env.yml''),
       Expr
         (Call (Attr (Name ''best_run'') ''download_file'')
            [Str ''outputs/scoring_file_v_1_0_0.py'', Str ''inference/score.py'']),
       Expr
         (Call (Attr (Name ''best_run'') ''download_file'')
            [Str ''outputs/conda_env_v_1_0_0.yml'', Str ''inference/env.yml''])],
      [Assign [Name ''description'']
         (Str
            ''AutoML Model trained on bank marketing data to predict if a client will subscribe to a term deposit''),
       Assign [Name ''tags''] (Lit ''None''),
       Assign [Name ''model'']
         (Call (Attr (Name ''remote_run'') ''register_model'')
            [Kw ''model_name'' (Name ''model_name''),
             Kw ''description'' (Name ''description''),
             Kw ''tags'' (Name ''tags'')]),
       Expr (Call (Name ''print'') [Attr (Name ''remote_run'') ''model_id''])],
      [Import ''azureml.core.model.InferenceConfig'' ''InferenceConfig'',
       Import ''azureml.core.webservice.AciWebservice'' ''AciWebservice'',
       Import ''azureml.core.webservice.Webservice'' ''Webservice'',
       Import ''azureml.core.model.Model'' ''Model'',
       Assign [Name ''inference_config'']
         (Call (Name ''InferenceConfig'')
            [Kw ''runtime'' (Str ''python''), Kw ''entry_script'' (Name ''script_file_name''),
             Kw ''conda_file'' (Name ''conda_env_file_name'')]),
       Assign [Name ''aciconfig'']
         (Call (Attr (Name ''AciWebservice'') ''deploy_configuration'')
            [Kw ''cpu_cores'' (Num 1), Kw ''memory_gb'' (Num 1),
             Kw ''tags''
               (Op ''dict''
                  [Op ''item'' [Str ''area'', Str ''bmData''],
                   Op ''item'' [Str ''type'', Str ''automl_classification'']]),
             Kw ''description'' (Str ''sample service for Automl Classification'')]),
       Assign [Name ''aci_service_name''] (Str ''automl-sample-bankmarketing-all''),
       Expr (Call (Name ''print'') [Name ''aci_service_name'']),
       Assign [Name ''aci_service'']
         (Call (Attr (Name ''Model'') ''deploy'')
            [Name ''ws'', Name ''aci_service_name'', Op ''list'' [Name ''model''],
             Name ''inference_config'', Name ''aciconfig'']),
       Expr (Call (Attr (Name ''aci_service'') ''wait_for_deployment'') [Lit ''True'']),
       Expr (Call (Name ''print'') [Attr (Name ''aci_service'') ''state''])],
      [], [], [Import ''numpy.array'' ''array''],
      [Assign [Name ''X_test'']
         (Call (Attr (Name ''test_dataset'') ''drop_columns'')
            [Kw ''columns'' (Op ''list'' [Str ''y''])]),
       Assign [Name ''y_test'']
         (Call (Attr (Name ''test_dataset'') ''keep_columns'')
            [Kw ''columns'' (Op ''list'' [Str ''y'']), Kw ''validate'' (Lit ''True'')]),
       Expr
         (Call
            (Attr (Call (Attr (Name ''test_dataset'') ''take'') [Num 5])
               ''to_pandas_dataframe'')
            [])],
      [Assign [Name ''X_test''] (Call (Attr (Name ''X_test'') ''to_pandas_dataframe'') []),
       Assign [Name ''y_test''] (Call (Attr (Name ''y_test'') ''to_pandas_dataframe'') [])],
      [Assign [Name ''y_pred'']
         (Call (Attr (Name ''fitted_model'') ''predict'') [Name ''X_test'']),
       Assign [Name ''actual''] (Call (Name ''array'') [Name ''y_test'']),
       Assign [Name ''actual'']
         (Index (Name ''actual'')
            (Op ''tuple'' [Op ''slice'' [Lit ''None'', Lit ''None''], Num 0])),
       Expr
         (Call (Name ''print'')
            [Attr (Name ''y_pred'') ''shape'', Str '' '', Attr (Name ''actual'') ''shape''])],
      [Magic ''matplotlib notebook'',
       Assign [Name ''test_pred'']
         (Call (Attr (Name ''plt'') ''scatter'')
            [Name ''actual'', Name ''y_pred'', Kw ''color'' (Str ''b'')]),
       Assign [Name ''test_test'']
         (Call (Attr (Name ''plt'') ''scatter'')
            [Name ''actual'', Name ''actual'', Kw ''color'' (Str ''g'')]),
       Expr
         (Call (Attr (Name ''plt'') ''legend'')
            [Op ''tuple'' [Name ''test_pred'', Name ''test_test''],
             Op ''tuple'' [Str ''prediction'', Str ''truth''],
             Kw ''loc'' (Str ''upper left''), Kw ''fontsize'' (Num 8)]),
       Expr (Call (Attr (Name ''plt'') ''show'') [])]]"

text \<open>
  auto-ml-forecasting-beer-remote,
  the file src/how-to-use-azureml/automated-machine-learning/forecasting-beer-remote/auto-ml-forecasting-beer-remote.ipynb:
  24 code cells.
\<close>

definition beer_nb :: "stmt list list" where
  "beer_nb =
     [[Import ''os'' ''os'', Import ''azureml.core'' ''azureml'', Import ''pandas'' ''pd'',
       Import ''numpy'' ''np'', Import ''logging'' ''logging'', Import ''warnings'' ''warnings'',
       Import ''pandas.tseries.frequencies.to_offset'' ''to_offset'',
       Assign [Attr (Name ''warnings'') ''showwarning'']
         (Lambda [Op ''*'' [Name ''args''], Kw ''**'' (Name ''kwargs'')] (Lit ''None'')),
       Import ''azureml.core.workspace.Workspace'' ''Workspace'',
       Import ''azureml.core.experiment.Experiment'' ''Experiment'',
       Import ''azureml.train.automl.AutoMLConfig'' ''AutoMLConfig'',
       Import ''matplotlib.pyplot'' ''plt'',
       Import ''sklearn.metrics.mean_absolute_error'' ''mean_absolute_error'',
       Import ''sklearn.metrics.mean_squared_error'' ''mean_squared_error'',
       Import ''azureml.train.estimator.Estimator'' ''Estimator''],
      [Assign [Name ''ws''] (Call (Attr (Name ''Workspace'') ''from_config'') []),
       Assign [Name ''experiment_name''] (Str ''beer-remote-cpu''),
       Assign [Name ''experiment'']
         (Call (Name ''Experiment'') [Name ''ws'', Name ''experiment_name'']),
       Assign [Name ''output''] (Op ''dict'' []),
       Assign [Index (Name ''output'') (Str ''SDK version'')]
         (Attr (Attr (Name ''azureml'') ''core'') ''VERSION''),
       Assign [Index (Name ''output'') (Str ''Subscription ID'')]
         (Attr (Name ''ws'') ''subscription_id''),
       Assign [Index (Name ''output'') (Str ''Workspace'')] (Attr (Name ''ws'') ''name''),
       Assign [Index (Name ''output'') (Str ''Resource Group'')]
         (Attr (Name ''ws'') ''resource_group''),
       Assign [Index (Name ''output'') (Str ''Location'')] (Attr (Name ''ws'') ''location''),
       Assign [Index (Name ''output'') (Str ''Run History Name'')] (Name ''experiment_name''),
       Expr (Call (Attr (Name ''pd'') ''set_option'') [Str ''display.max_colwidth'', Num (-1)]),
       Assign [Name ''outputDf'']
         (Call (Attr (Name ''pd'') ''DataFrame'')
            [Kw ''data'' (Name ''output''), Kw ''index'' (Op ''list'' [Str ''''])]),
       Expr (Attr (Name ''outputDf'') ''T'')],
      [Import ''azureml.core.compute.ComputeTarget'' ''ComputeTarget'',
       Import ''azureml.core.compute.AmlCompute'' ''AmlCompute'',
       Import ''azureml.core.compute_target.ComputeTargetException'' ''ComputeTargetException'',
       Assign [Name ''cpu_cluster_name''] (Str ''cpu-cluster''),
       Try
         [Assign [Name ''compute_target'']
            (Call (Name ''ComputeTarget'')
               [Kw ''workspace'' (Name ''ws''), Kw ''name'' (Name ''cpu_cluster_name'')]),
          Expr (Call (Name ''print'') [Str ''Found existing cluster, use it.''])]
         [Except (Name ''ComputeTargetException'') []
            [Assign [Name ''compute_config'']
               (Call (Attr (Name ''AmlCompute'') ''provisioning_configuration'')
                  [Kw ''vm_size'' (Str ''STANDARD_D2_V2''), Kw ''max_nodes'' (Num 4)]),
             Assign [Name ''compute_target'']
               (Call (Attr (Name ''ComputeTarget'') ''create'')
                  [Name ''ws'', Name ''cpu_cluster_name'', Name ''compute_config''])]],
       Expr
         (Call (Attr (Name ''compute_target'') ''wait_for_completion'')
            [Kw ''show_output'' (Lit ''True'')])],
      [Import ''pandas'' ''pd'', Import ''pandas.DataFrame'' ''DataFrame'',
       Import ''pandas.Grouper'' ''Grouper'', Import ''matplotlib.pyplot'' ''pyplot'',
       Import ''pandas.concat'' ''concat'', Import ''matplotlib.pyplot'' ''pyplot'',
       Import ''pandas.plotting.register_matplotlib_converters''
         ''register_matplotlib_converters'',
       Expr (Call (Name ''register_matplotlib_converters'') []),
       Expr (Call (Attr (Name ''plt'') ''tight_layout'') []),
       Expr
         (Call (Attr (Name ''plt'') ''figure'')
            [Kw ''figsize'' (Op ''tuple'' [Num 20, Num 10])]),
       Expr (Call (Attr (Name ''plt'') ''subplot'') [Num 2, Num 1, Num 1]),
       Expr (Call (Attr (Name ''plt'') ''title'') [Str ''Beer Production By Year'']),
       Assign [Name ''df'']
         (Call
            (Attr
               (Call (Attr (Name ''pd'') ''read_csv'')
                  [Str ''Beer_no_valid_split_train.csv'', Kw ''parse_dates'' (Lit ''True''),
                   Kw ''index_col'' (Str ''DATE'')])
               ''drop'')
            [Kw ''columns'' (Str ''grain'')]),
       Assign [Name ''test_df'']
         (Call
            (Attr
               (Call (Attr (Name ''pd'') ''read_csv'')
                  [Str ''Beer_no_valid_split_test.csv'', Kw ''parse_dates'' (Lit ''True''),
                   Kw ''index_col'' (Str ''DATE'')])
               ''drop'')
            [Kw ''columns'' (Str ''grain'')]),
       Expr (Call (Attr (Name ''pyplot'') ''plot'') [Name ''df'']),
       Expr (Call (Attr (Name ''plt'') ''subplot'') [Num 2, Num 1, Num 2]),
       Expr (Call (Attr (Name ''plt'') ''title'') [Str ''Beer Production By Month'']),
       Assign [Name ''groups'']
         (Call (Attr (Name ''df'') ''groupby'') [Attr (Attr (Name ''df'') ''index'') ''month'']),
       Assign [Name ''months'']
         (Call (Name ''concat'')
            [ListComp
               (Call (Name ''DataFrame'') [Attr (Index (Name ''x'') (Num 1)) ''values''])
               (Name ''x'')
               (Name ''groups''),
             Kw ''axis'' (Num 1)]),
       Assign [Name ''months''] (Call (Name ''DataFrame'') [Name ''months'']),
       Assign [Attr (Name ''months'') ''columns''] (Call (Name ''range'') [Num 1, Num 13]),
       Expr (Call (Attr (Name ''months'') ''boxplot'') []),
       Expr (Call (Attr (Name ''pyplot'') ''show'') [])],
      [Assign [Name ''target_column_name''] (Str ''BeerProduction''),
       Assign [Name ''time_column_name''] (Str ''DATE''),
       Assign [Name ''grain_column_names''] (Op ''list'' []),
       Assign [Name ''freq''] (Str ''M'')],
      [Import ''helper.split_fraction_by_grain'' ''split_fraction_by_grain'',
       Import ''helper.split_full_for_forecasting'' ''split_full_for_forecasting'',
       Assign [Op ''tuple'' [Name ''train'', Name ''valid'']]
         (Call (Name ''split_full_for_forecasting'') [Name ''df'', Name ''time_column_name'']),
       Expr (Call (Attr (Name ''train'') ''to_csv'') [Str ''train.csv'']),
       Expr (Call (Attr (Name ''valid'') ''to_csv'') [Str ''valid.csv'']),
       Expr (Call (Attr (Name ''test_df'') ''to_csv'') [Str ''test.csv'']),
       Assign [Name ''datastore''] (Call (Attr (Name ''ws'') ''get_default_datastore'') []),
       Expr
         (Call (Attr (Name ''datastore'') ''upload_files'')
            [Kw ''files'' (Op ''list'' [Str ''./train.csv'']),
             Kw ''target_path'' (Str ''beer-dataset/tabular/''),
             Kw ''overwrite'' (Lit ''True''), Kw ''show_progress'' (Lit ''True'')]),
       Expr
         (Call (Attr (Name ''datastore'') ''upload_files'')
            [Kw ''files'' (Op ''list'' [Str ''./valid.csv'']),
             Kw ''target_path'' (Str ''beer-dataset/tabular/''),
             Kw ''overwrite'' (Lit ''True''), Kw ''show_progress'' (Lit ''True'')]),
       Expr
         (Call (Attr (Name ''datastore'') ''upload_files'')
            [Kw ''files'' (Op ''list'' [Str ''./test.csv'']),
             Kw ''target_path'' (Str ''beer-dataset/tabular/''),
             Kw ''overwrite'' (Lit ''True''), Kw ''show_progress'' (Lit ''True'')]),
       Import ''azureml.core.Dataset'' ''Dataset'',
       Assign [Name ''train_dataset'']
         (Call (Attr (Attr (Name ''Dataset'') ''Tabular'') ''from_delimited_files'')
            [Kw ''path''
               (Op ''list''
                  [Op ''tuple'' [Name ''datastore'', Str ''beer-dataset/tabular/train.csv'']])]),
       Assign [Name ''valid_dataset'']
         (Call (Attr (Attr (Name ''Dataset'') ''Tabular'') ''from_delimited_files'')
            [Kw ''path''
               (Op ''list''
                  [Op ''tuple'' [Name ''datastore'', Str ''beer-dataset/tabular/valid.csv'']])]),
       Assign [Name ''test_dataset'']
         (Call (Attr (Attr (Name ''Dataset'') ''Tabular'') ''from_delimited_files'')
            [Kw ''path''
               (Op ''list''
                  [Op ''tuple'' [Name ''datastore'', Str ''beer-dataset/tabular/test.csv'']])])],
      [Assign [Name ''max_horizon''] (Num 12)],
      [Assign [Name ''automl_settings'']
         (Op ''dict''
            [Op ''item'' [Str ''time_column_name'', Name ''time_column_name''],
             Op ''item'' [Str ''max_horizon'', Name ''max_horizon''],
             Op ''item'' [Str ''enable_dnn'', Lit ''True'']]),
       Assign [Name ''automl_config'']
         (Call (Name ''AutoMLConfig'')
            [Kw ''task'' (Str ''forecasting''),
             Kw ''primary_metric'' (Str ''normalized_root_mean_squared_error''),
             Kw ''experiment_timeout_minutes'' (Num 60),
             Kw ''training_data'' (Name ''train_dataset''),
             Kw ''label_column_name'' (Name ''target_column_name''),
             Kw ''validation_data'' (Name ''valid_dataset''),
             Kw ''verbosity'' (Attr (Name ''logging'') ''INFO''),
             Kw ''compute_target'' (Name ''compute_target''),
             Kw ''max_concurrent_iterations'' (Num 4),
             Kw ''max_cores_per_iteration'' (Num (-1)),
             Kw ''**'' (Name ''automl_settings'')])],
      [Assign [Name ''remote_run'']
         (Call (Attr (Name ''experiment'') ''submit'')
            [Name ''automl_config'', Kw ''show_output'' (Lit ''False'')]),
       Expr (Name ''remote_run'')],
      [], [Expr (Call (Attr (Name ''remote_run'') ''wait_for_completion'') [])],
      [Import ''helper.get_result_df'' ''get_result_df'',
       Assign [Name ''summary_df''] (Call (Name ''get_result_df'') [Name ''remote_run'']),
       Expr (Name ''summary_df'')],
      [Import ''azureml.core.run.Run'' ''Run'',
       Import ''azureml.widgets.RunDetails'' ''RunDetails'',
       Assign [Name ''forecast_model''] (Str ''TCNForecaster''),
       If
         (Op ''not''
            [Op ''in'' [Name ''forecast_model'', Index (Name ''summary_df'') (Str ''run_id'')]])
         [Assign [Name ''forecast_model''] (Str ''ForecastTCN'')]
         [],
       Assign [Name ''best_dnn_run_id'']
         (Index (Index (Name ''summary_df'') (Str ''run_id'')) (Name ''forecast_model'')),
       Assign [Name ''best_dnn_run'']
         (Call (Name ''Run'') [Name ''experiment'', Name ''best_dnn_run_id''])],
      [Expr (Attr (Name ''best_dnn_run'') ''parent''),
       Expr
         (Call
            (Attr (Call (Name ''RunDetails'') [Attr (Name ''best_dnn_run'') ''parent''])
               ''show'')
            [])],
      [Expr (Name ''best_dnn_run''),
       Expr (Call (Attr (Call (Name ''RunDetails'') [Name ''best_dnn_run'']) ''show'') [])],
      [Import ''azureml.core.Dataset'' ''Dataset'',
       Assign [Name ''test_dataset'']
         (Call (Attr (Attr (Name ''Dataset'') ''Tabular'') ''from_delimited_files'')
            [Kw ''path''
               (Op ''list''
                  [Op ''tuple'' [Name ''datastore'', Str ''beer-dataset/tabular/test.csv'']])]),
       Expr
         (Call
            (Attr (Call (Attr (Name ''test_dataset'') ''take'') [Num 5])
               ''to_pandas_dataframe'')
            [])],
      [Assign [Name ''compute_target'']
         (Index (Attr (Name ''ws'') ''compute_targets'') (Str ''cpu-cluster'')),
       Assign [Name ''test_experiment'']
         (Call (Name ''Experiment'')
            [Name ''ws'', Op ''+'' [Name ''experiment_name'', Str ''_test'']])],
      [Import ''os'' ''os'', Import ''shutil'' ''shutil'',
       Assign [Name ''script_folder'']
         (Call (Attr (Attr (Name ''os'') ''path'') ''join'')
            [Call (Attr (Name ''os'') ''getcwd'') [], Str ''inference'']),
       Expr
         (Call (Attr (Name ''os'') ''makedirs'')
            [Name ''script_folder'', Kw ''exist_ok'' (Lit ''True'')]),
       Expr (Call (Attr (Name ''shutil'') ''copy2'') [Str ''infer.py'', Name ''script_folder''])],
      [Import ''helper.run_inference'' ''run_inference'',
       Assign [Name ''test_run'']
         (Call (Name ''run_inference'')
            [Name ''test_experiment'', Name ''compute_target'', Name ''script_folder'',
             Name ''best_dnn_run'', Name ''test_dataset'', Name ''valid_dataset'',
             Name ''max_horizon'', Name ''target_column_name'', Name ''time_column_name'',
             Name ''freq''])],
      [Expr (Call (Attr (Call (Name ''RunDetails'') [Name ''test_run'']) ''show'') [])],
      [Import ''helper.run_multiple_inferences'' ''run_multiple_inferences'',
       Assign [Name ''summary_df'']
         (Call (Name ''run_multiple_inferences'')
            [Name ''summary_df'', Name ''experiment'', Name ''test_experiment'',
             Name ''compute_target'', Name ''script_folder'', Name ''test_dataset'',
             Name ''valid_dataset'', Name ''max_horizon'', Name ''target_column_name'',
             Name ''time_column_name'', Name ''freq''])],
      [For (Op ''tuple'' [Name ''run_name'', Name ''run_summary''])
         (Call (Attr (Name ''summary_df'') ''iterrows'') [])
         [Expr (Call (Name ''print'') [Name ''run_name'']),
          Expr (Call (Name ''print'') [Name ''run_summary'']),
          Assign [Name ''run_id''] (Attr (Name ''run_summary'') ''run_id''),
          Assign [Name ''test_run_id''] (Attr (Name ''run_summary'') ''test_run_id''),
          Assign [Name ''test_run'']
            (Call (Name ''Run'') [Name ''test_experiment'', Name ''test_run_id'']),
          Expr (Call (Attr (Name ''test_run'') ''wait_for_completion'') []),
          Assign [Name ''test_score'']
            (Index (Call (Attr (Name ''test_run'') ''get_metrics'') [])
               (Attr (Name ''run_summary'') ''primary_metric'')),
          Assign
            [Index (Attr (Name ''summary_df'') ''loc'')
               (Op ''tuple''
                  [Op ''=='' [Attr (Name ''summary_df'') ''run_id'', Name ''run_id''],
                   Str ''Test Score''])]
            (Name ''test_score''),
          Expr (Call (Name ''print'') [Str ''Test Score: '', Name ''test_score''])]],
      [Expr (Name ''summary_df'')], []]"

text \<open>
  auto-ml-classification-text-dnn,
  the file src/how-to-use-azureml/automated-machine-learning/classification-text-dnn/auto-ml-classification-text-dnn.ipynb:
  22 code cells.
\<close>

definition textdnn_nb :: "stmt list list" where
  "textdnn_nb =
     [[Import ''logging'' ''logging'', Import ''os'' ''os'', Import ''shutil'' ''shutil'',
       Import ''pandas'' ''pd'', Import ''azureml.core'' ''azureml'',
       Import ''azureml.core.experiment.Experiment'' ''Experiment'',
       Import ''azureml.core.workspace.Workspace'' ''Workspace'',
       Import ''azureml.core.dataset.Dataset'' ''Dataset'',
       Import ''azureml.core.compute.AmlCompute'' ''AmlCompute'',
       Import ''azureml.core.compute.ComputeTarget'' ''ComputeTarget'',
       Import ''azureml.core.run.Run'' ''Run'',
       Import ''azureml.widgets.RunDetails'' ''RunDetails'',
       Import ''azureml.core.model.Model'' ''Model'',
       Import ''helper.run_inference'' ''run_inference'',
       Import ''helper.get_result_df'' ''get_result_df'',
       Import ''azureml.train.automl.AutoMLConfig'' ''AutoMLConfig'',
       Import ''sklearn.datasets.fetch_20newsgroups'' ''fetch_20newsgroups''],
      [Assign [Name ''ws''] (Call (Attr (Name ''Workspace'') ''from_config'') []),
       Assign [Name ''experiment_name''] (Str ''automl-classification-text-dnn''),
       Assign [Name ''experiment'']
         (Call (Name ''Experiment'') [Name ''ws'', Name ''experiment_name'']),
       Assign [Name ''output''] (Op ''dict'' []),
       Assign [Index (Name ''output'') (Str ''SDK version'')]
         (Attr (Attr (Name ''azureml'') ''core'') ''VERSION''),
       Assign [Index (Name ''output'') (Str ''Subscription ID'')]
         (Attr (Name ''ws'') ''subscription_id''),
       Assign [Index (Name ''output'') (Str ''Workspace Name'')] (Attr (Name ''ws'') ''name''),
       Assign [Index (Name ''output'') (Str ''Resource Group'')]
         (Attr (Name ''ws'') ''resource_group''),
       Assign [Index (Name ''output'') (Str ''Location'')] (Attr (Name ''ws'') ''location''),
       Assign [Index (Name ''output'') (Str ''Experiment Name'')]
         (Attr (Name ''experiment'') ''name''),
       Expr (Call (Attr (Name ''pd'') ''set_option'') [Str ''display.max_colwidth'', Num (-1)]),
       Assign [Name ''outputDf'']
         (Call (Attr (Name ''pd'') ''DataFrame'')
            [Kw ''data'' (Name ''output''), Kw ''index'' (Op ''list'' [Str ''''])]),
       Expr (Attr (Name ''outputDf'') ''T'')],
      [Assign [Name ''amlcompute_cluster_name''] (Str ''cpu-dnntext''),
       Assign [Name ''found''] (Lit ''False''),
       Assign [Name ''cts''] (Attr (Name ''ws'') ''compute_targets''),
       If
         (Op ''and''
            [Op ''in'' [Name ''amlcompute_cluster_name'', Name ''cts''],
             Op ''==''
               [Attr (Index (Name ''cts'') (Name ''amlcompute_cluster_name'')) ''type'',
                Str ''AmlCompute'']])
         [Assign [Name ''found''] (Lit ''True''),
          Expr (Call (Name ''print'') [Str ''Found existing compute target.'']),
          Assign [Name ''compute_target'']
            (Index (Name ''cts'') (Name ''amlcompute_cluster_name''))]
         [],
       If (Op ''not'' [Name ''found''])
         [Expr (Call (Name ''print'') [Str ''Creating a new compute target...'']),
          Assign [Name ''provisioning_config'']
            (Call (Attr (Name ''AmlCompute'') ''provisioning_configuration'')
               [Kw ''vm_size'' (Str ''STANDARD_D2_V2''), Kw ''max_nodes'' (Num 6)]),
          Assign [Name ''compute_target'']
            (Call (Attr (Name ''ComputeTarget'') ''create'')
               [Name ''ws'', Name ''amlcompute_cluster_name'', Name ''provisioning_config''])]
         [],
       Expr (Call (Name ''print'') [Str ''Checking cluster status...'']),
       Expr
         (Call (Attr (Name ''compute_target'') ''wait_for_completion'')
            [Kw ''show_output'' (Lit ''True''), Kw ''min_node_count'' (Lit ''None''),
             Kw ''timeout_in_minutes'' (Num 20)])],
      [Assign [Name ''data_dir''] (Str ''text-dnn-data''),
       Assign [Name ''blobstore_datadir''] (Name ''data_dir''),
       Assign [Name ''target_column_name''] (Str ''y''),
       Assign [Name ''feature_column_name''] (Str ''X''),
       Def ''get_20newsgroups_data'' [] []
         [Docstring
            (''Fetches 20 Newsgroups data from scikit-learn'' @ [CHR 0x0A] @
               ''       Returns them in form of pandas dataframes''
               @
               [CHR 0x0A]
               @
               ''    ''),
          Assign [Name ''remove'']
            (Op ''tuple'' [Str ''headers'', Str ''footers'', Str ''quotes'']),
          Assign [Name ''categories'']
            (Op ''list''
               [Str ''alt.atheism'', Str ''talk.religion.misc'', Str ''comp.graphics'',
                Str ''sci.space'']),
          Assign [Name ''data'']
            (Call (Name ''fetch_20newsgroups'')
               [Kw ''subset'' (Str ''train''), Kw ''categories'' (Name ''categories''),
                Kw ''shuffle'' (Lit ''True''), Kw ''random_state'' (Num 42),
                Kw ''remove'' (Name ''remove'')]),
          Assign [Name ''data'']
            (Call (Attr (Name ''pd'') ''DataFrame'')
               [Op ''dict''
                  [Op ''item'' [Name ''feature_column_name'', Attr (Name ''data'') ''data''],
                   Op ''item''
                     [Name ''target_column_name'', Attr (Name ''data'') ''target'']]]),
          Assign [Name ''data_train'']
            (Index (Name ''data'') (Op ''slice'' [Lit ''None'', Num 200])),
          Assign [Name ''data_test''] (Index (Name ''data'') (Op ''slice'' [Num 200, Num 300])),
          Assign [Name ''data_train'']
            (Call (Name ''remove_blanks_20news'')
               [Name ''data_train'', Name ''feature_column_name'',
                Name ''target_column_name'']),
          Assign [Name ''data_test'']
            (Call (Name ''remove_blanks_20news'')
               [Name ''data_test'', Name ''feature_column_name'', Name ''target_column_name'']),
          Return (Op ''tuple'' [Name ''data_train'', Name ''data_test''])],
       Def ''remove_blanks_20news'' []
         [Name ''data'', Name ''feature_column_name'', Name ''target_column_name'']
         [Assign [Index (Name ''data'') (Name ''feature_column_name'')]
            (Call
               (Attr
                  (Call
                     (Attr (Index (Name ''data'') (Name ''feature_column_name''))
                        ''replace'')
                     [Str ([CHR 0x5C] @ ''n''), Str '' '', Kw ''regex'' (Lit ''True'')])
                  ''apply'')
               [Lambda [Name ''x''] (Call (Attr (Name ''x'') ''strip'') [])]),
          Assign [Name ''data'']
            (Index (Name ''data'')
               (Op ''!='' [Index (Name ''data'') (Name ''feature_column_name''), Str ''''])),
          Return (Name ''data'')]],
      [Assign [Op ''tuple'' [Name ''data_train'', Name ''data_test'']]
         (Call (Name ''get_20newsgroups_data'') []),
       If (Op ''not'' [Call (Attr (Attr (Name ''os'') ''path'') ''isdir'') [Name ''data_dir'']])
         [Expr (Call (Attr (Name ''os'') ''mkdir'') [Name ''data_dir''])]
         [],
       Assign [Name ''train_data_fname'']
         (Op ''+'' [Name ''data_dir'', Str ''/train_data.csv'']),
       Assign [Name ''test_data_fname''] (Op ''+'' [Name ''data_dir'', Str ''/test_data.csv'']),
       Expr
         (Call (Attr (Name ''data_train'') ''to_csv'')
            [Name ''train_data_fname'', Kw ''index'' (Lit ''False'')]),
       Expr
         (Call (Attr (Name ''data_test'') ''to_csv'')
            [Name ''test_data_fname'', Kw ''index'' (Lit ''False'')]),
       Assign [Name ''datastore''] (Call (Attr (Name ''ws'') ''get_default_datastore'') []),
       Expr
         (Call (Attr (Name ''datastore'') ''upload'')
            [Kw ''src_dir'' (Name ''data_dir''),
             Kw ''target_path'' (Name ''blobstore_datadir''),
             Kw ''overwrite'' (Lit ''True'')])],
      [Assign [Name ''train_dataset'']
         (Call (Attr (Attr (Name ''Dataset'') ''Tabular'') ''from_delimited_files'')
            [Kw ''path''
               (Op ''list''
                  [Op ''tuple''
                     [Name ''datastore'',
                      Op ''+'' [Name ''blobstore_datadir'', Str ''/train_data.csv'']]])])],
      [Assign [Name ''automl_settings'']
         (Op ''dict''
            [Op ''item'' [Str ''experiment_timeout_minutes'', Num 20],
             Op ''item'' [Str ''primary_metric'', Str ''accuracy''],
             Op ''item'' [Str ''preprocess'', Lit ''True''],
             Op ''item'' [Str ''max_concurrent_iterations'', Num 4],
             Op ''item'' [Str ''max_cores_per_iteration'', Num (-1)],
             Op ''item'' [Str ''enable_dnn'', Lit ''True''],
             Op ''item'' [Str ''enable_early_stopping'', Lit ''True''],
             Op ''item'' [Str ''validation_size'', Lit ''0.3''],
             Op ''item'' [Str ''verbosity'', Attr (Name ''logging'') ''INFO''],
             Op ''item'' [Str ''enable_voting_ensemble'', Lit ''False''],
             Op ''item'' [Str ''enable_stack_ensemble'', Lit ''False'']]),
       Assign [Name ''automl_config'']
         (Call (Name ''AutoMLConfig'')
            [Kw ''task'' (Str ''classification''),
             Kw ''debug_log'' (Str ''automl_errors.log''),
             Kw ''compute_target'' (Name ''compute_target''),
             Kw ''training_data'' (Name ''train_dataset''),
             Kw ''label_column_name'' (Name ''target_column_name''),
             Kw ''**'' (Name ''automl_settings'')])],
      [Assign [Name ''automl_run'']
         (Call (Attr (Name ''experiment'') ''submit'')
            [Name ''automl_config'', Kw ''show_output'' (Lit ''False'')])],
      [Expr (Name ''automl_run'')],
      [Expr (Call (Attr (Name ''automl_run'') ''wait_for_completion'') [])],
      [],
      [Assign [Name ''summary_df''] (Call (Name ''get_result_df'') [Name ''automl_run'']),
       Assign [Name ''best_dnn_run_id'']
         (Index (Attr (Index (Name ''summary_df'') (Str ''run_id'')) ''iloc'') (Num 0)),
       Assign [Name ''best_dnn_run'']
         (Call (Name ''Run'') [Name ''experiment'', Name ''best_dnn_run_id''])],
      [Assign [Name ''model_dir''] (Str ''Model''),
       If
         (Op ''not'' [Call (Attr (Attr (Name ''os'') ''path'') ''isdir'') [Name ''model_dir'']])
         [Expr (Call (Attr (Name ''os'') ''mkdir'') [Name ''model_dir''])]
         [],
       Expr
         (Call (Attr (Name ''best_dnn_run'') ''download_file'')
            [Str ''outputs/model.pkl'', Op ''+'' [Name ''model_dir'', Str ''/model.pkl'']])],
      [Assign [Name ''model_name''] (Str ''textDNN-20News''),
       Assign [Name ''model'']
         (Call (Attr (Name ''Model'') ''register'')
            [Kw ''model_path'' (Op ''+'' [Name ''model_dir'', Str ''/model.pkl'']),
             Kw ''model_name'' (Name ''model_name''), Kw ''tags'' (Lit ''None''),
             Kw ''workspace'' (Name ''ws'')])],
      [Assign [Name ''test_dataset'']
         (Call (Attr (Attr (Name ''Dataset'') ''Tabular'') ''from_delimited_files'')
            [Kw ''path''
               (Op ''list''
                  [Op ''tuple''
                     [Name ''datastore'',
                      Op ''+'' [Name ''blobstore_datadir'', Str ''/test_data.csv'']]])]),
       Expr
         (Call
            (Attr (Call (Attr (Name ''test_dataset'') ''take'') [Num 3])
               ''to_pandas_dataframe'')
            [])],
      [Assign [Name ''test_experiment'']
         (Call (Name ''Experiment'')
            [Name ''ws'', Op ''+'' [Name ''experiment_name'', Str ''_test'']])],
      [Assign [Name ''script_folder'']
         (Call (Attr (Attr (Name ''os'') ''path'') ''join'')
            [Call (Attr (Name ''os'') ''getcwd'') [], Str ''inference'']),
       Expr
         (Call (Attr (Name ''os'') ''makedirs'')
            [Name ''script_folder'', Kw ''exist_ok'' (Lit ''True'')]),
       Expr (Call (Attr (Name ''shutil'') ''copy2'') [Str ''infer.py'', Name ''script_folder''])],
      [Assign [Name ''test_run'']
         (Call (Name ''run_inference'')
            [Name ''test_experiment'', Name ''compute_target'', Name ''script_folder'',
             Name ''best_dnn_run'', Name ''test_dataset'', Name ''target_column_name'',
             Name ''model_name''])],
      [Expr (Name ''test_run'')],
      [Expr (Call (Attr (Call (Name ''RunDetails'') [Name ''test_run'']) ''show'') [])],
      [Expr (Call (Attr (Name ''test_run'') ''wait_for_completion'') [])],
      [Expr
         (Call (Attr (Name ''pd'') ''Series'')
            [Call (Attr (Name ''test_run'') ''get_metrics'') []])]]"

section \<open>Reading the cells\<close>

text \<open>
  \<open>sub_stmts\<close> lists a statement and every statement nested in it, in source order;
  \<open>own_exprs\<close> lists the expressions a statement has itself (not those of nested
  statements); \<open>sub_exprs\<close> lists an expression and all its subexpressions.
  \<open>cell_stmts\<close> are all the statements of a cell and \<open>stmt_exprs\<close> all the
  expressions of a statement. \<open>per_stmt f\<close> collects what \<open>f\<close> finds in each statement
  of a notebook, cell after cell in source order, and \<open>per_expr f\<close> what \<open>f\<close> finds in
  each expression; \<open>where_stmt P\<close> lists the statements that satisfy \<open>P\<close>.
\<close>

fun sub_exprs :: "expr \<Rightarrow> expr list" where
  "sub_exprs (Attr e a) = Attr e a # sub_exprs e"
| "sub_exprs (Call f args) = Call f args # sub_exprs f @ concat (map sub_exprs args)"
| "sub_exprs (Kw k e) = Kw k e # sub_exprs e"
| "sub_exprs (Index e i) = Index e i # sub_exprs e @ sub_exprs i"
| "sub_exprs (Op f es) = Op f es # concat (map sub_exprs es)"
| "sub_exprs (Lambda ps e) = Lambda ps e # concat (map sub_exprs ps) @ sub_exprs e"
| "sub_exprs (ListComp e t i) = ListComp e t i # sub_exprs e @ sub_exprs t @ sub_exprs i"
| "sub_exprs e = [e]"

fun sub_stmts :: "stmt \<Rightarrow> stmt list" where
  "sub_stmts (If c a b) = If c a b # concat (map sub_stmts a) @ concat (map sub_stmts b)"
| "sub_stmts (For t i b) = For t i b # concat (map sub_stmts b)"
| "sub_stmts (With c t b) = With c t b # concat (map sub_stmts b)"
| "sub_stmts (Try b hs) = Try b hs # concat (map sub_stmts b) @ concat (map sub_stmts hs)"
| "sub_stmts (Except c n b) = Except c n b # concat (map sub_stmts b)"
| "sub_stmts (Def f ds ps b) = Def f ds ps b # concat (map sub_stmts b)"
| "sub_stmts (WriteFile f b) = WriteFile f b # concat (map sub_stmts b)"
| "sub_stmts s = [s]"

fun own_exprs :: "stmt \<Rightarrow> expr list" where
  "own_exprs (Assign ts e) = ts @ [e]"
| "own_exprs (Expr e) = [e]"
| "own_exprs (If c a b) = [c]"
| "own_exprs (For t i b) = [t, i]"
| "own_exprs (With c t b) = c # t"
| "own_exprs (Except c n b) = [c]"
| "own_exprs (Def f ds ps b) = ds @ ps"
| "own_exprs (Return e) = [e]"
| "own_exprs s = []"

definition cell_stmts :: "stmt list \<Rightarrow> stmt list" where
  "cell_stmts c = concat (map sub_stmts c)"

definition stmt_exprs :: "stmt \<Rightarrow> expr list" where
  "stmt_exprs s = concat (map sub_exprs (own_exprs s))"

definition per_stmt :: "(stmt \<Rightarrow> 'a list) \<Rightarrow> stmt list list \<Rightarrow> 'a list" where
  "per_stmt f nb = concat (map (\<lambda>c. concat (map f (cell_stmts c))) nb)"

definition per_expr :: "(expr \<Rightarrow> 'a list) \<Rightarrow> stmt list list \<Rightarrow> 'a list" where
  "per_expr f nb = per_stmt (\<lambda>s. concat (map f (stmt_exprs s))) nb"

definition where_stmt :: "(stmt \<Rightarrow> bool) \<Rightarrow> stmt list list \<Rightarrow> stmt list" where
  "where_stmt P nb = per_stmt (\<lambda>s. if P s then [s] else []) nb"

text \<open>The notebooks of the repository, by name.\<close>

definition corpus :: "(string \<times> stmt list list) list" where
  "corpus =
     [(''register-model-deploy-local'', deploy_local_nb),
      (''train-hyperparameter-tune-deploy-with-chainer'', chainer_nb),
      (''tabular-dataset-inference-iris'', iris_nb),
      (''drift-on-aks'', drift_nb),
      (''auto-ml-classification-bank-marketing-all-features'', bank_nb),
      (''auto-ml-forecasting-beer-remote'', beer_nb),
      (''auto-ml-classification-text-dnn'', textdnn_nb)]"

subsection \<open>Calls\<close>

text \<open>
  \<open>callee\<close> is the name a call is made by: the function's name in \<open>f(...)\<close>, the
  method's name in \<open>e.m(...)\<close>. \<open>method_calls\<close> lists the receiver and the method of
  every call \<open>e.m(...)\<close> of a notebook, \<open>methods_called\<close> the methods alone,
  \<open>calls_of m\<close> the receivers of the calls of the method \<open>m\<close>, \<open>methods_on xs\<close> the
  calls whose receiver is one of the variables \<open>xs\<close>, and \<open>attrs_used x\<close> the
  attributes read directly off the variable \<open>x\<close>.
\<close>

fun callee :: "expr \<Rightarrow> string list" where
  "callee (Call (Name f) args) = [f]"
| "callee (Call (Attr e m) args) = [m]"
| "callee e = []"

definition calls_in :: "stmt list \<Rightarrow> string list" where
  "calls_in ss = concat (map callee (concat (map stmt_exprs (cell_stmts ss))))"

fun method_call :: "expr \<Rightarrow> (expr \<times> string) list" where
  "method_call (Call (Attr e m) args) = [(e, m)]"
| "method_call e = []"

definition method_calls :: "stmt list list \<Rightarrow> (expr \<times> string) list" where
  "method_calls nb = per_expr method_call nb"

definition methods_called :: "stmt list list \<Rightarrow> string list" where
  "methods_called nb = per_expr (\<lambda>e. map snd (method_call e)) nb"

definition calls_of :: "string \<Rightarrow> stmt list list \<Rightarrow> expr list" where
  "calls_of m nb =
     per_expr (\<lambda>e. concat (map (\<lambda>(r, m'). if m' = m then [r] else []) (method_call e))) nb"

definition methods_on :: "string list \<Rightarrow> stmt list list \<Rightarrow> (string \<times> string) list" where
  "methods_on xs nb =
     per_expr (\<lambda>e. concat (map (\<lambda>(r, m). case r of
                                            Name x \<Rightarrow> if x \<in> set xs then [(x, m)] else []
                                          | _ \<Rightarrow> [])
                            (method_call e))) nb"

fun attr_of :: "string \<Rightarrow> expr \<Rightarrow> string list" where
  "attr_of x (Attr (Name y) a) = (if x = y then [a] else [])"
| "attr_of x e = []"

definition attrs_used :: "string \<Rightarrow> stmt list list \<Rightarrow> string list" where
  "attrs_used x nb = per_expr (attr_of x) nb"

subsection \<open>Exception handlers\<close>

text \<open>
  For every \<open>except\<close> clause of a notebook: the exception class it names, the calls made
  in the body of its \<open>try\<close>, and the calls made in the handler. \<open>loop_with_try\<close> holds
  of a \<open>for\<close> loop with a \<open>try\<close> statement anywhere in its body, the shape a retry
  loop would have.
\<close>

fun handler_of :: "stmt \<Rightarrow> (expr \<times> string list \<times> string list) list" where
  "handler_of (Try body hs) =
     concat (map (\<lambda>h. case h of Except c n b \<Rightarrow> [(c, calls_in body, calls_in b)] | _ \<Rightarrow> []) hs)"
| "handler_of s = []"

definition handlers :: "stmt list list \<Rightarrow> (expr \<times> string list \<times> string list) list" where
  "handlers nb = per_stmt handler_of nb"

fun is_Try :: "stmt \<Rightarrow> bool" where
  "is_Try (Try b hs) = True"
| "is_Try s = False"

fun loop_with_try :: "stmt \<Rightarrow> bool" where
  "loop_with_try (For t i b) = list_ex is_Try (cell_stmts b)"
| "loop_with_try s = False"

subsection \<open>Names a statement writes\<close>

text \<open>
  \<open>target_roots\<close> is the variable at the root of an assignment target: \<open>x\<close> for the
  targets \<open>x\<close>, \<open>x.a\<close>, \<open>x.a.b\<close> and \<open>x[i]\<close>, every variable of a tuple target, and
  the parameter's name for a parameter with a default. \<open>writes\<close> lists the variables a
  statement binds, or whose attribute or item it assigns: the targets of an assignment,
  of a \<open>for\<close> and of a \<open>with\<close>, the name an import binds, the name after \<open>as\<close> in an
  \<open>except\<close>, and the name and parameters of a function definition. \<open>names_in\<close> lists
  the variables that occur in an expression, and \<open>mentions x\<close> holds of a statement
  with the variable \<open>x\<close> in one of its own expressions.
\<close>

fun target_roots :: "expr \<Rightarrow> string list" where
  "target_roots (Name x) = [x]"
| "target_roots (Attr e a) = target_roots e"
| "target_roots (Index e i) = target_roots e"
| "target_roots (Op f es) = concat (map target_roots es)"
| "target_roots (Kw k e) = [k]"
| "target_roots e = []"

fun writes :: "stmt \<Rightarrow> string list" where
  "writes (Assign ts e) = concat (map target_roots ts)"
| "writes (Import m n) = [n]"
| "writes (For t i b) = target_roots t"
| "writes (With c t b) = concat (map target_roots t)"
| "writes (Except c n b) = n"
| "writes (Def f ds ps b) = f # concat (map target_roots ps)"
| "writes s = []"

fun name_of :: "expr \<Rightarrow> string list" where
  "name_of (Name x) = [x]"
| "name_of e = []"

definition names_in :: "expr \<Rightarrow> string list" where
  "names_in e = concat (map name_of (sub_exprs e))"

definition mentions :: "string \<Rightarrow> stmt \<Rightarrow> bool" where
  "mentions x s \<longleftrightarrow> x \<in> set (concat (map names_in (own_exprs s)))"

subsection \<open>Child processes, imported packages, sleeps\<close>

text \<open>
  \<open>shells\<close> lists the commands of a notebook's \<open>!\<close> escapes, \<open>packages\<close> the
  top-level packages it imports from, and \<open>sleeps\<close> the argument lists of its calls of
  \<open>sleep\<close>.
\<close>

fun shell :: "stmt \<Rightarrow> string list" where
  "shell (Shell c) = [c]"
| "shell s = []"

definition shells :: "stmt list list \<Rightarrow> string list" where
  "shells nb = per_stmt shell nb"

fun imported :: "stmt \<Rightarrow> string list" where
  "imported (Import m n) = [takeWhile (\<lambda>c. c \<noteq> CHR ''.'') m]"
| "imported s = []"

definition packages :: "stmt list list \<Rightarrow> string list" where
  "packages nb = per_stmt imported nb"

fun sleep_args :: "expr \<Rightarrow> expr list list" where
  "sleep_args (Call (Attr e m) args) = (if m = ''sleep'' then [args] else [])"
| "sleep_args (Call (Name f) args) = (if f = ''sleep'' then [args] else [])"
| "sleep_args e = []"

definition sleeps :: "stmt list list \<Rightarrow> expr list list" where
  "sleeps nb = per_expr sleep_args nb"

subsection \<open>Submissions\<close>

text \<open>
  \<open>submitted s\<close> lists the variables that statement \<open>s\<close> hands to a \<open>submit\<close> call as
  its first argument (\<open>experiment.submit(estimator)\<close>); these are the run
  configurations. \<open>receivers s\<close> lists the variables on which \<open>s\<close> calls a method, and
  \<open>constructed s\<close> the variable that \<open>s\<close> assigns the result of a call (a
  constructor's). What the walk over a notebook needs of a statement is its \<open>step\<close>:
  the variables it writes, those it calls methods on, those it submits, the one it
  constructs, and, for an assignment to a variable, that variable with the variables
  its value mentions.

  The three functions below walk the steps of a notebook in order.
  \<open>touched_after_submit\<close> collects every variable submitted so far that a later
  statement writes (the variable, an attribute or an item of it) or calls a method on.
  \<open>submitted_unbuilt\<close> collects the submitted variables that no earlier statement
  constructed. \<open>built_from_submitted\<close> collects the pairs \<open>(y, x)\<close> where \<open>y\<close> is
  assigned an expression that mentions a variable \<open>x\<close> submitted earlier.
\<close>

fun submit_arg :: "expr \<Rightarrow> string list" where
  "submit_arg (Call (Attr e m) (Name x # args)) = (if m = ''submit'' then [x] else [])"
| "submit_arg e = []"

definition submitted :: "stmt \<Rightarrow> string list" where
  "submitted s = concat (map submit_arg (stmt_exprs s))"

definition receivers :: "stmt \<Rightarrow> string list" where
  "receivers s = concat (map (\<lambda>(e, m). target_roots e) (concat (map method_call (stmt_exprs s))))"

fun constructed :: "stmt \<Rightarrow> string list" where
  "constructed (Assign [Name x] (Call f args)) = [x]"
| "constructed s = []"

fun assigned_from :: "stmt \<Rightarrow> (string \<times> string list) list" where
  "assigned_from (Assign [Name y] e) = [(y, names_in e)]"
| "assigned_from s = []"

datatype step =
  Step (wrote: "string list") (called_on: "string list") (submits: "string list")
       (builds: "string list") (assigns: "(string \<times> string list) list")

definition step_of :: "stmt \<Rightarrow> step" where
  "step_of s = Step (writes s) (receivers s) (submitted s) (constructed s) (assigned_from s)"

definition steps :: "stmt list list \<Rightarrow> step list" where
  "steps nb = per_stmt (\<lambda>s. [step_of s]) nb"

fun touched_after_submit :: "string list \<Rightarrow> step list \<Rightarrow> string list" where
  "touched_after_submit subs [] = []"
| "touched_after_submit subs (s # ss) =
     filter (\<lambda>x. x \<in> set (wrote s) \<or> x \<in> set (called_on s)) subs
     @ touched_after_submit (submits s @ subs) ss"

fun submitted_unbuilt :: "string list \<Rightarrow> step list \<Rightarrow> string list" where
  "submitted_unbuilt built [] = []"
| "submitted_unbuilt built (s # ss) =
     filter (\<lambda>x. x \<notin> set built) (submits s) @ submitted_unbuilt (builds s @ built) ss"

fun built_from_submitted :: "string list \<Rightarrow> step list \<Rightarrow> (string \<times> string) list" where
  "built_from_submitted subs [] = []"
| "built_from_submitted subs (s # ss) =
     concat (map (\<lambda>(y, ns). map (\<lambda>x. (y, x)) (filter (\<lambda>x. x \<in> set ns) subs)) (assigns s))
     @ built_from_submitted (submits s @ subs) ss"

subsection \<open>Run handles\<close>

text \<open>
  The variables the notebooks bind to a run: the result of \<open>submit\<close>, of the
  constructors \<open>Run\<close> and \<open>AutoMLRun\<close>, of \<open>get_best_run_by_primary_metric\<close>, of
  \<open>get_output\<close> (its first component), of \<open>get_children\<close>, of the drift monitor's
  \<open>run\<close> and of the helper \<open>run_inference\<close>; \<open>run\<close> is also the parameter of
  \<open>get_onnx_res\<close>. \<open>run_bound\<close> lists the variables a notebook assigns straight from
  a call of \<open>submit\<close>, \<open>Run\<close>, \<open>AutoMLRun\<close>, \<open>get_best_run_by_primary_metric\<close> or
  \<open>run_inference\<close>, as a check on the list.
\<close>

definition run_handles :: "string list" where
  "run_handles =
     [''run'', ''hyperdrive_run'', ''best_run'', ''pipeline_run'', ''prediction_run'', ''child_run'',
      ''remote_run'', ''best_run_customized'', ''model_explainability_run'', ''best_dnn_run'',
      ''test_run'', ''automl_run'']"

fun run_binding :: "stmt \<Rightarrow> string list" where
  "run_binding (Assign ts e) =
     (if list_ex (\<lambda>f. f \<in> set [''submit'', ''Run'', ''AutoMLRun'', ''get_best_run_by_primary_metric'',
                                  ''run_inference'']) (callee e)
      then concat (map target_roots ts) else [])"
| "run_binding s = []"

definition run_bound :: "stmt list list \<Rightarrow> string list" where
  "run_bound nb = per_stmt run_binding nb"

subsection \<open>Functions defined in the notebooks\<close>

fun def_name :: "stmt \<Rightarrow> string list" where
  "def_name (Def f ds ps b) = [f]"
| "def_name s = []"

definition functions_defined :: "stmt list list \<Rightarrow> string list" where
  "functions_defined nb = per_stmt def_name nb"

section \<open>Properties of the entry script\<close>




section \<open>The polling loop\<close>



lemma poll_Some_imp:
  assumes "poll r tm n = Some w"
  shows "(\<exists>k\<ge>n. r k) \<or> tm \<noteq> None"
proof (rule poll.raw_induct[where P = "\<lambda>r tm n w. (\<exists>k\<ge>n. r k) \<or> tm \<noteq> None", OF _ assms])
  fix p :: "(nat \<Rightarrow> bool) \<Rightarrow> nat option \<Rightarrow> nat \<Rightarrow> wait_result option"
  fix r tm n w
  assume ih: "\<And>r tm n w. p r tm n = Some w \<Longrightarrow> (\<exists>k\<ge>n. r k) \<or> tm \<noteq> None"
  assume eq: "(if r n then Some Completed
      else if (case tm of None \<Rightarrow> False | Some t \<Rightarrow> t \<le> n) then Some TimedOut
      else p r tm (Suc n)) = Some w"
  show "(\<exists>k\<ge>n. r k) \<or> tm \<noteq> None"
  proof (cases "r n \<or> tm \<noteq> None")
    case True
    then show ?thesis by auto
  next
    case False
    with eq have "p r tm (Suc n) = Some w" by simp
    then have "(\<exists>k\<ge>Suc n. r k) \<or> tm \<noteq> None" by (rule ih)
    with False obtain k where "Suc n \<le> k" and "r k" by auto
    then have "n \<le> k \<and> r k" by simp
    then show ?thesis by blast
  qed
qed

lemma poll_never_ready: "\<forall>k. \<not> r k \<Longrightarrow> poll r None n = None"
  using poll_Some_imp[of r None n] by (cases "poll r None n") auto




lemma wait_stalled: "wait_for_completion stalled_sdk c None = None"
  by (simp add: wait_for_completion_def stalled_sdk_def poll_never_ready)

lemma wait_accepting:
  "wait_for_completion accepting_sdk c None = Some Completed"
  "wait_for_completion accepting_sdk c (Some 20) = Some Completed"
  by (simp_all add: wait_for_completion_def accepting_sdk_def poll.simps)

lemma create_stalled:
  "create stalled_sdk cts n cfg
     = Inr (cts(n \<mapsto> \<lparr>target_type = config_type cfg, target_name = n\<rparr>),
            \<lparr>target_type = config_type cfg, target_name = n\<rparr>)"
  by (simp add: stalled_sdk_def accepting_sdk_def Let_def)

section \<open>Each acquisition cell, case by case\<close>


lemmas cell_defs = chainer_compute_cell_def beer_compute_cell_def beer_wait_def aks_compute_cell_def
  membership_compute_cell_def found_flag_compute_cell_def found_flag_wait_def
  ComputeTarget_def getitem_def did_def assign_def creates_def Let_def domIff





























text \<open>
  A wait without a timeout has no bound of its own: on a platform that never reports the
  cluster ready, the forecasting notebook's cell does not return.
\<close>

lemma beer_wait_unbounded: "beer_compute_cell stalled_sdk fresh_notebook = None"
  by (simp add: cell_defs fresh_notebook_def wait_stalled create_stalled)

section \<open>Getting or creating a compute target\<close>





section \<open>The membership-test cell and a target of another type\<close>

text \<open>
  C9: in the membership-test cell (tabular-dataset-inference-iris, and the monitoring
  cluster of drift-on-aks), when the name is registered for a target that is not an
  \<open>AmlCompute\<close>, the cell returns without an exception, binds that target to
  \<open>compute_target\<close>, and all it did is read \<open>ws.compute_targets\<close> twice: no
  \<open>create\<close>, no \<open>wait_for_completion\<close>, nothing printed.
\<close>

theorem membership_keeps_other_type:
  assumes "compute_targets nb compute_name = Some t" and "target_type t \<noteq> AmlCompute"
  shows "membership_compute_cell compute_name v lo hi s nb
           = Some (nb\<lparr>vars := (vars nb)(''compute_target'' \<mapsto> t),
                       effects := effects nb @ [ListTargets, ListTargets]\<rparr>, None)"
  using assms by (simp add: cell_defs)

theorem membership_keeps_other_type_witness:
  "drift_compute_cell stalled_sdk (aks_named ''cpu-cluster'')
     = Some (\<lparr>compute_targets = [''cpu-cluster'' \<mapsto> \<lparr>target_type = AksCompute, target_name = ''cpu-cluster''\<rparr>],
              vars = [''compute_target'' \<mapsto> \<lparr>target_type = AksCompute, target_name = ''cpu-cluster''\<rparr>],
              effects = [ListTargets, ListTargets]\<rparr>, None)"
  using membership_keeps_other_type[of "aks_named ''cpu-cluster''" "''cpu-cluster''"
      "\<lparr>target_type = AksCompute, target_name = ''cpu-cluster''\<rparr>"
      "''STANDARD_D3_V2''" "IntV 0" "IntV 2" stalled_sdk]
  by (simp add: drift_compute_cell_def aks_named_def)

section \<open>Waiting on cluster creation\<close>



section \<open>The MNIST loader\<close>

lemma reshape_singletons:
  assumes "reshape n 1 arr = Inr rows"
  shows "rows = map (\<lambda>b. [b]) arr \<and> length arr = n"
proof -
  from assms have len: "length arr = n"
    and rows: "rows = map (\<lambda>i. take 1 (drop i arr)) [0..<n]"
    by (auto simp: reshape_def split: if_splits)
  have "take 1 (drop i arr) = [arr ! i]" if "i < length arr" for i
    using that by (simp add: take_Suc hd_drop_conv_nth)
  then have "map (\<lambda>i. take 1 (drop i arr)) [0..<length arr] = map (\<lambda>i. [arr ! i]) [0..<length arr]"
    by simp
  also have "\<dots> = map (\<lambda>b. [b]) (map ((!) arr) [0..<length arr])"
    by simp
  also have "\<dots> = map (\<lambda>b. [b]) arr"
    by (simp only: map_nth)
  finally show ?thesis using len rows by simp
qed

text \<open>
  What the loader returns for a label file: one row per label, holding the bytes that
  follow the eight bytes of header.
\<close>

lemma load_data_labels:
  assumes "load_data gz True = Inr rows"
  shows "rows = map (\<lambda>b. [b]) (take (length rows) (drop 8 gz))"
proof -
  from assms obtain n where r: "reshape n 1 (take n (drop 8 gz)) = Inr rows"
    by (auto simp: load_data_def read_def Let_def split: sum.splits prod.splits)
  from reshape_singletons[OF r] show ?thesis by simp
qed

section \<open>Local computation\<close>

text \<open>
  C3, as stated: no local algorithm (parsing, decoding, prediction) is implemented in the
  source. The chainer notebook defines \<open>load_data\<close>, which parses the IDX format of the
  MNIST files on the machine that runs the notebook: it decodes the big-endian counts of
  the header and cuts the payload into one row per image, and it raises on a file that
  is too short for its header or for the sizes the header announces.
\<close>

theorem load_data_parses_counterexample:
  "functions_defined chainer_nb = [''load_data'']
   \<and> load_data [0, 0, 8, 3, 0, 0, 0, 2, 0, 0, 0, 1, 0, 0, 0, 3, 11, 12, 13, 21, 22, 23] False
       = Inr [[11, 12, 13], [21, 22, 23]]
   \<and> load_data [0, 0, 8, 1, 0, 0, 1, 0] True = Inl (Exc ValueError ''cannot reshape array'')
   \<and> load_data [0, 0, 8, 1, 0, 0] True
       = Inl (Exc StructError ''unpack requires a buffer of 4 bytes'')"
proof -
  have "functions_defined chainer_nb = [''load_data'']"
    by code_simp
  then show ?thesis
    by (simp add: load_data_def read_def unpack_I_def reshape_def upt_conv_Cons)
qed

text \<open>
  C3, amended: the notebooks hand training, hyperparameter search and batch scoring to
  the platform through \<open>submit\<close>, but they do compute locally. The functions defined in
  the source are \<open>init\<close> and \<open>run\<close> of \<open>score.py\<close>, \<open>load_data\<close> (the IDX parser),
  \<open>get_onnx_res\<close>, \<open>get_20newsgroups_data\<close> and \<open>remove_blanks_20news\<close> (text
  cleaning), and no others; prediction runs locally in \<open>score.py\<close>
  (\<open>model.predict\<close>) and in the bank-marketing notebook (\<open>onnxrt_helper.predict\<close>,
  \<open>fitted_model.predict\<close>), and nowhere else.
\<close>

theorem local_computation_inventory:
  "map (\<lambda>(n, nb). (n, functions_defined nb, calls_of ''predict'' nb)) corpus =
     [(''register-model-deploy-local'', [''init'', ''run''], [Name ''model'']),
      (''train-hyperparameter-tune-deploy-with-chainer'', [''load_data''], []),
      (''tabular-dataset-inference-iris'', [], []),
      (''drift-on-aks'', [], []),
      (''auto-ml-classification-bank-marketing-all-features'', [''get_onnx_res''],
         [Name ''onnxrt_helper'', Name ''fitted_model'']),
      (''auto-ml-forecasting-beer-remote'', [], []),
      (''auto-ml-classification-text-dnn'',
         [''get_20newsgroups_data'', ''remove_blanks_20news''], [])]"
  by code_simp

section \<open>Exception handling\<close>

text \<open>
  A failure of \<open>ComputeTarget.create\<close> is under no handler in any acquisition cell: the
  cell ends with the exception that \<open>create\<close> raised.
\<close>

lemma create_failure_propagates:
  assumes "\<And>cts n cfg. create s cts n cfg = Inl e"
  shows "compute_targets nb ''gpu-cluster'' = None \<Longrightarrow> \<exists>nb1. chainer_compute_cell s nb = Some (nb1, Some e)"
    and "compute_targets nb ''cpu-cluster'' = None \<Longrightarrow> \<exists>nb1. beer_compute_cell s nb = Some (nb1, Some e)"
    and "compute_targets nb ''drift-aks'' = None \<Longrightarrow> \<exists>nb1. aks_compute_cell s nb = Some (nb1, Some e)"
    and "compute_targets nb n = None \<Longrightarrow> \<exists>nb1. membership_compute_cell n v lo hi s nb = Some (nb1, Some e)"
    and "compute_targets nb n = None \<Longrightarrow> \<exists>nb1. found_flag_compute_cell n s nb = Some (nb1, Some e)"
  by (simp_all add: cell_defs assms)

text \<open>
  C2, as stated: the only exception handling is the get-or-create handling, and every
  other failure propagates unhandled. The entry script \<open>score.py\<close> that the
  local-deployment notebook writes catches every \<open>Exception\<close> around
  \<open>model.predict\<close>: a failure of the prediction does not propagate, \<open>run\<close> returns its
  message as an ordinary result.
\<close>

theorem run_swallows_failure_counterexample:
  "run (\<lambda>data :: nat. (Inl (Exc ValueError ''shapes not aligned'') :: py_exc + nat)) 7
     = Inr ''shapes not aligned''"
  by (simp add: run_def)

text \<open>
  C2, amended: the notebooks have six \<open>except\<close> clauses and no other exception
  handling. Four get or create a resource: \<open>ComputeTargetException\<close> around the lookup
  \<open>ComputeTarget(...)\<close> in the chainer and forecasting notebooks and \<open>KeyError\<close> around
  \<open>ws.compute_targets[aks_name]\<close> in drift-on-aks, whose handlers call \<open>create\<close>, and
  \<open>KeyError\<close> around \<open>DataDriftDetector.create_from_model\<close> in drift-on-aks, whose
  handler calls \<open>get\<close>. The fifth is \<open>ImportError\<close> around the import of
  \<open>onnxruntime\<close> in the bank-marketing notebook, and the sixth is \<open>Exception\<close> around
  \<open>model.predict\<close> in \<open>score.py\<close>, whose handler returns \<open>str(e)\<close>. No \<open>try\<close> is inside
  a loop, so no failed call is tried again.
\<close>

theorem exception_handlers_inventory:
  "map (\<lambda>(n, nb). (n, handlers nb)) corpus =
     [(''register-model-deploy-local'', [(Name ''Exception'', [''predict''], [''str''])]),
      (''train-hyperparameter-tune-deploy-with-chainer'',
         [(Name ''ComputeTargetException'', [''ComputeTarget'', ''print''],
           [''print'', ''provisioning_configuration'', ''create'', ''wait_for_completion''])]),
      (''tabular-dataset-inference-iris'', []),
      (''drift-on-aks'',
         [(Name ''KeyError'', [], [''create'', ''wait_for_completion'']),
          (Name ''KeyError'', [''create_from_model'', ''utcnow'', ''timedelta''], [''get''])]),
      (''auto-ml-classification-bank-marketing-all-features'', [(Name ''ImportError'', [], [])]),
      (''auto-ml-forecasting-beer-remote'',
         [(Name ''ComputeTargetException'', [''ComputeTarget'', ''print''],
           [''provisioning_configuration'', ''create''])]),
      (''auto-ml-classification-text-dnn'', [])]
   \<and> list_all (\<lambda>(n, nb). where_stmt loop_with_try nb = []) corpus"
  by code_simp

section \<open>Run configurations\<close>

text \<open>
  C5, as stated: every run configuration is constructed fresh before each submission.
  In the chainer notebook the estimator is submitted (\<open>run = experiment.submit(estimator)\<close>)
  and the same object is then handed to \<open>HyperDriveConfig(estimator=estimator, ...)\<close>,
  which is submitted next: the second submission is built from a configuration that
  was already submitted, not from a fresh one.
\<close>

theorem estimator_reused_counterexample:
  "per_stmt submitted chainer_nb = [''estimator'', ''hyperdrive_config'']
   \<and> built_from_submitted [] (steps chainer_nb) = [(''hyperdrive_config'', ''estimator'')]"
  by code_simp

text \<open>
  C5, amended: in every notebook, each variable handed to \<open>submit\<close> was assigned the
  result of a constructor call by an earlier statement and is submitted once, and no
  statement after its submission assigns the variable, an attribute or an item of it,
  or calls a method on it; every call of \<open>submit\<close> in the notebooks is one of these
  submissions. A submitted configuration is reused in one place: the chainer notebook
  builds \<open>hyperdrive_config\<close> from the submitted \<open>estimator\<close>. (Submissions made
  inside \<open>helper.py\<close>, which is not among the source files, are outside this
  statement.)
\<close>

theorem submitted_configurations:
  "list_all (\<lambda>(n, nb).
       touched_after_submit [] (steps nb) = []
       \<and> submitted_unbuilt [] (steps nb) = []
       \<and> distinct (per_stmt submitted nb)
       \<and> length (calls_of ''submit'' nb) = length (per_stmt submitted nb)) corpus
   \<and> map (\<lambda>(n, nb). (per_stmt submitted nb, built_from_submitted [] (steps nb))) corpus =
       [([], []),
        ([''estimator'', ''hyperdrive_config''], [(''hyperdrive_config'', ''estimator'')]),
        ([''pipeline''], []),
        ([], []),
        ([''automl_config''], []),
        ([''automl_config''], []),
        ([''automl_config''], [])]"
  by code_simp

section \<open>The workspace reference\<close>

text \<open>
  C6: in every notebook exactly one statement writes \<open>ws\<close> (the variable, an attribute
  or an item of it), and it is \<open>ws = Workspace.from_config()\<close>; that statement is the
  first to mention \<open>ws\<close>; \<open>from_config\<close> is called once; and the attributes read off
  \<open>ws\<close> afterwards are its identifying fields (\<open>name\<close>, \<open>resource_group\<close>,
  \<open>location\<close>, \<open>subscription_id\<close>) and the accessors \<open>compute_targets\<close>,
  \<open>get_default_datastore\<close>, \<open>models\<close> and \<open>webservices\<close>.
\<close>

theorem workspace_loaded_once:
  "list_all (\<lambda>(n, nb).
       where_stmt (\<lambda>s. ''ws'' \<in> set (writes s)) nb
         = [Assign [Name ''ws''] (Call (Attr (Name ''Workspace'') ''from_config'') [])]
       \<and> take 1 (where_stmt (mentions ''ws'') nb)
         = [Assign [Name ''ws''] (Call (Attr (Name ''Workspace'') ''from_config'') [])]
       \<and> calls_of ''from_config'' nb = [Name ''Workspace'']
       \<and> list_all (\<lambda>a. a \<in> set [''name'', ''resource_group'', ''location'', ''subscription_id'',
                                   ''compute_targets'', ''get_default_datastore'', ''models'',
                                   ''webservices'']) (attrs_used ''ws'' nb)) corpus"
  by code_simp

section \<open>Waiting, threads and processes\<close>

text \<open>
  C7, as stated: no notebook creates threads or processes. The chainer notebook runs two
  shell commands with IPython's \<open>!\<close> escape, each in a child process that the notebook
  waits for.
\<close>

theorem shell_escape_counterexample:
  "shells chainer_nb =
     [''jupyter nbextension install --py --user azureml.widgets'',
      ''jupyter nbextension enable --py --user azureml.widgets'']"
  by code_simp

text \<open>
  C7, amended: no notebook imports a package for threads, processes or asynchronous
  tasks (\<open>threading\<close>, \<open>multiprocessing\<close>, \<open>subprocess\<close>, \<open>concurrent\<close>, \<open>asyncio\<close>,
  ...), the attributes used of \<open>os\<close> are file-system and environment accessors, the
  calls of \<open>sleep\<close> are \<open>time.sleep(600)\<close> and \<open>time.sleep(1200)\<close> in drift-on-aks,
  each with an integer literal as its argument, and no method named
  \<open>cancel\<close> (or \<open>terminate\<close>, \<open>kill\<close>, \<open>abort\<close>) is called. The only child
  processes are those of three shell escapes, which run synchronously: the two
  \<open>jupyter nbextension\<close> commands of the chainer notebook and the \<open>pip install\<close> of the
  bank-marketing notebook.
\<close>

theorem synchronous_waiting:
  "list_all (\<lambda>(n, nb).
       list_all (\<lambda>p. p \<notin> set [''threading'', ''_thread'', ''multiprocessing'', ''subprocess'',
                                  ''concurrent'', ''asyncio'', ''queue'', ''signal'', ''sched''])
         (packages nb)
       \<and> list_all (\<lambda>a. a \<in> set [''path'', ''getenv'', ''environ'', ''makedirs'', ''mkdir'',
                                    ''getcwd'', ''walk'']) (attrs_used ''os'' nb)
       \<and> list_all (\<lambda>m. m \<notin> set [''cancel'', ''cancel_run'', ''terminate'', ''kill'', ''abort''])
            (methods_called nb)) corpus
   \<and> map (\<lambda>(n, nb). (shells nb, sleeps nb)) corpus =
       [([], []),
        ([''jupyter nbextension install --py --user azureml.widgets'',
          ''jupyter nbextension enable --py --user azureml.widgets''], []),
        ([], []),
        ([], [[Num 600], [Num 1200]]),
        ([''{sys.executable} -m pip install --user --force-reinstall onnxruntime==0.4.0''], []),
        ([], []),
        ([], [])]"
  by code_simp

section \<open>Run handles\<close>

text \<open>
  C8: in every notebook, the methods called on a variable bound to a run are
  \<open>wait_for_completion\<close> (polling), the queries \<open>get_details\<close>, \<open>get_properties\<close>,
  \<open>get_metrics\<close>, \<open>get_children\<close>, \<open>get_best_run_by_primary_metric\<close>,
  \<open>get_file_names\<close>, \<open>get_output\<close>, \<open>get_output_data\<close>, and \<open>download_file\<close> and
  \<open>register_model\<close>, which read the run's outputs; none of them moves the run from one
  state to another. No method named \<open>cancel\<close>, \<open>complete\<close>, \<open>fail\<close>, \<open>start\<close>,
  \<open>restart\<close>, \<open>resume\<close>, \<open>terminate\<close>, \<open>kill\<close> or \<open>abort\<close> is called on any object.
  Every variable assigned from \<open>submit\<close>, \<open>Run\<close>, \<open>AutoMLRun\<close>,
  \<open>get_best_run_by_primary_metric\<close> or \<open>run_inference\<close> is among the run handles
  checked.
\<close>

theorem run_state_only_observed:
  "list_all (\<lambda>(n, nb).
       list_all (\<lambda>(x, m). m \<in> set [''wait_for_completion'', ''get_details'',
                                      ''get_best_run_by_primary_metric'', ''get_file_names'',
                                      ''get_children'', ''get_output_data'', ''get_output'',
                                      ''get_properties'', ''get_metrics'', ''download_file'',
                                      ''register_model''])
         (methods_on run_handles nb)
       \<and> list_all (\<lambda>m. m \<notin> set [''cancel'', ''complete'', ''fail'', ''start'', ''restart'',
                                     ''resume'', ''terminate'', ''kill'', ''abort''])
            (methods_called nb)
       \<and> list_all (\<lambda>x. x \<in> set run_handles) (run_bound nb)) corpus"
  by code_simp

end
